theory Spec2Isabelle
  imports Main "HOL-Library.Sublist"
begin

section \<open>Python values used by the dataset builders\<close>

text \<open>
  The three scripts under \<^verbatim>\<open>scripts/\<close> are Python. Exceptions are values of
  type \<open>error\<close>; a function that may raise returns \<open>error + 'a\<close>. The two errors
  \<open>CanonicalizationError\<close> and \<open>EncodingError\<close> stand for whatever the chemistry
  toolkit raises, \<open>ServiceError\<close> for whatever the chat-completion client raises.
\<close>

datatype error =
    ValueError | TypeError | KeyError | IndexError | UnboundLocalError
  | CanonicalizationError | EncodingError | ServiceError

text \<open>
  \<^verbatim>\<open>str.replace(old, new)\<close>: every non-overlapping occurrence of \<open>old\<close>, found
  from the left, is replaced by \<open>new\<close>; the inserted text is not scanned again. With an
  empty \<open>old\<close> Python inserts \<open>new\<close> before every character and at the end.
\<close>

fun str_replace :: "string \<Rightarrow> string \<Rightarrow> string \<Rightarrow> string" where
  "str_replace [] new s = new @ concat (map (\<lambda>c. c # new) s)"
| "str_replace (a # as) new [] = []"
| "str_replace (a # as) new (c # cs) =
     (if prefix (a # as) (c # cs)
      then new @ str_replace (a # as) new (drop (length as) cs)
      else c # str_replace (a # as) new cs)"

text \<open>
  A field of a JSON-lines row is a string, or \<open>None\<close> when the row has no such
  field; \<^verbatim>\<open>template.replace(old, None)\<close> raises \<open>TypeError\<close>.
\<close>

definition replace_arg :: "string \<Rightarrow> string option \<Rightarrow> string \<Rightarrow> error + string" where
  "replace_arg old new s =
     (case new of None \<Rightarrow> Inl TypeError | Some n \<Rightarrow> Inr (str_replace old n s))"

text \<open>\<^verbatim>\<open>sub in s\<close> on strings.\<close>

fun contains :: "string \<Rightarrow> string \<Rightarrow> bool" where
  "contains sub [] = (sub = [])"
| "contains sub (c # cs) = (prefix sub (c # cs) \<or> contains sub cs)"

text \<open>\<^verbatim>\<open>str(n)\<close> for a non-negative integer, and \<^verbatim>\<open>str(None)\<close>.\<close>

fun str_nat :: "nat \<Rightarrow> string" where
  "str_nat n =
     (if n < 10 then [char_of (48 + n)]
      else str_nat (n div 10) @ [char_of (48 + n mod 10)])"

declare str_nat.simps [simp del]

definition str_field :: "string option \<Rightarrow> string" where
  "str_field v = (case v of None \<Rightarrow> ''None'' | Some s \<Rightarrow> s)"

text \<open>\<^verbatim>\<open>sep.join(parts)\<close>.\<close>

fun join :: "string \<Rightarrow> string list \<Rightarrow> string" where
  "join sep [] = []"
| "join sep [p] = p"
| "join sep (p # q # ps) = p @ sep @ join sep (q # ps)"

text \<open>
  The module-level random generator is a stream of natural numbers that is passed along:
  every draw reads the head and returns the tail.
\<close>

type_synonym rng = "nat \<Rightarrow> nat"

definition rng_tail :: "rng \<Rightarrow> rng" where
  "rng_tail g = (\<lambda>i. g (Suc i))"

text \<open>\<^verbatim>\<open>random.choice(seq)\<close>: \<open>IndexError\<close> on an empty sequence.\<close>

definition random_choice :: "'a list \<Rightarrow> rng \<Rightarrow> (error + 'a) \<times> rng" where
  "random_choice xs g =
     (if xs = [] then (Inl IndexError, g)
      else (Inr (xs ! (g 0 mod length xs)), rng_tail g))"

section \<open>The molecule pipelines: what both scripts share\<close>

text \<open>
  \<^verbatim>\<open>molecule_build_name_conversion_i2s_smol.py\<close> (name to SMILES) and
  \<^verbatim>\<open>molecule_build_name_conversion_s2f_smol.py\<close> (SMILES to formula) have the
  same constants, the same \<open>process_input\<close> and the same
  \<open>generate_few_shot_examples\<close>, character for character.
\<close>

definition MOLECULE_TOKEN :: string where
  "MOLECULE_TOKEN = ''<molecule_2d>''"

definition SYSTEM_PROMPT :: string where
  "SYSTEM_PROMPT =
     ''You are a chemist. Please follow the instructions to convert the structure to the corresponding name.''"

definition FEW_SHOT_PROMPT :: string where
  "FEW_SHOT_PROMPT = ''Here are some examples of name conversion.''"

record prompt_template =
  tpl_input :: string
  tpl_output :: string

record raw_record =
  raw_input :: "string option"
  raw_output :: "string option"

datatype role = ROLE_SYSTEM | ROLE_USER | ROLE_ASSISTANT

record message =
  role :: role
  content :: string

record 'm molecules =
  selfies :: 'm
  smiles :: 'm

record 'm conversation =
  conv_id :: nat
  molecules :: "'m molecules"
  ground_truth :: "string option"
  messages :: "message list"

text \<open>
  \<open>convert_to_canonical_smiles\<close> (module \<^verbatim>\<open>bioagent.chemistry_tools.smiles\<close>) and
  \<open>sf.encoder\<close> (package \<^verbatim>\<open>selfies\<close>) are not part of the scripts; they are the
  parameters \<open>canon\<close> and \<open>encoder\<close>. \<open>canon\<close> receives the row's field as it is.
\<close>

type_synonym canonicalizer = "string option \<Rightarrow> error + string"
type_synonym selfies_encoder = "string \<Rightarrow> error + string"

definition process_input ::
  "canonicalizer \<Rightarrow> selfies_encoder \<Rightarrow> string option \<Rightarrow> string \<Rightarrow> bool
     \<Rightarrow> error + (string \<times> string \<times> string)" where
  "process_input canon encoder inp format token =
     (case canon inp of
        Inl e \<Rightarrow> Inl e
      | Inr smi \<Rightarrow>
          (case encoder smi of
             Inl e \<Rightarrow> Inl e
           | Inr sfs \<Rightarrow>
               if token then Inr (sfs, smi, MOLECULE_TOKEN)
               else if format = ''smiles'' then Inr (sfs, smi, smi)
               else if format = ''selfies'' then Inr (sfs, smi, sfs)
               else Inl ValueError))"


section \<open>Name to SMILES: \<^verbatim>\<open>molecule_build_name_conversion_i2s_smol.py\<close>\<close>

definition PROMPT_TEMPLATES_i2s :: "prompt_template list" where
  "PROMPT_TEMPLATES_i2s =
   [\<lparr>tpl_input = ''<INPUT> is the IUPAC name of a molecule. Please give its SMILES representation.'',
     tpl_output = ''<OUTPUT>''\<rparr>,
    \<lparr>tpl_input = ''Convert the IUPAC name of a molecule <INPUT> into SMILES representation.'',
     tpl_output = ''<OUTPUT>''\<rparr>,
    \<lparr>tpl_input = ''What is the SMILES representation of the molecule with IUPAC name <INPUT> ?'',
     tpl_output = ''<OUTPUT>''\<rparr>,
    \<lparr>tpl_input = ''Can you give the SMILES notation of the molecule <INPUT> ?'',
     tpl_output = ''Sure. <OUTPUT>''\<rparr>,
    \<lparr>tpl_input = ''Please write the SMILES representation of the molecule <INPUT> .'',
     tpl_output = ''<OUTPUT>''\<rparr>,
    \<lparr>tpl_input = ''<INPUT> The above is the IUPAC name of a molecule. Write its SMILES notation.'',
     tpl_output = ''<OUTPUT>''\<rparr>,
    \<lparr>tpl_input = ''The IUPAC name of a certain molecule is <INPUT> . Can you provide its SMILES representation?'',
     tpl_output = ''The SMILES representation is <OUTPUT> .''\<rparr>,
    \<lparr>tpl_input = ''Please identify the SMILES representation of the molecule named <INPUT> .'',
     tpl_output = ''The molecule's SMILES representation is <OUTPUT> .''\<rparr>,
    \<lparr>tpl_input = ''For the molecule with <INPUT> as the IUPAC name, what is the corresponding SMILES representation?'',
     tpl_output = ''The corresponding SMILES representation is <OUTPUT> .''\<rparr>,
    \<lparr>tpl_input = ''What is the SMILES notation for <INPUT> ?'',
     tpl_output = ''It's <OUTPUT> .''\<rparr>,
    \<lparr>tpl_input = ''Could you provide the SMILES for <INPUT> ?'',
     tpl_output = ''Of course. It's <OUTPUT> .''\<rparr>,
    \<lparr>tpl_input = ''Can you tell me the SMILES representation for the molecule <INPUT> ?'',
     tpl_output = ''Sure. <OUTPUT> .''\<rparr>,
    \<lparr>tpl_input = ''What is the SMILES representation for <INPUT> ?'',
     tpl_output = ''<OUTPUT>''\<rparr>]"

text \<open>
  The rendering of the few-shot block of \<open>conversation_test\<close>, the same in both scripts:
  \<^verbatim>\<open>"\n".join(f"Few-shot example {i+1}: {example['input']} -> {example['output']}" ...)\<close>.
\<close>

definition newline :: string where
  "newline = [CHR 0x0A]"

definition few_shot_line :: "nat \<times> raw_record \<Rightarrow> string" where
  "few_shot_line p =
     ''Few-shot example '' @ str_nat (fst p + 1) @ '': '' @ str_field (raw_input (snd p))
       @ '' -> '' @ str_field (raw_output (snd p))"

definition few_shot_content :: "raw_record list option \<Rightarrow> string \<Rightarrow> string" where
  "few_shot_content few_shots input_template =
     (case few_shots of
        None \<Rightarrow> input_template
      | Some [] \<Rightarrow> input_template
      | Some (f # fs) \<Rightarrow>
          FEW_SHOT_PROMPT @ newline
            @ join newline (map few_shot_line (enumerate 0 (f # fs)))
            @ newline @ input_template)"

text \<open>
  In this script \<open>conversation_train\<close> and \<open>conversation_test\<close> take \<open>format\<close> and
  \<open>token\<close> and use neither; \<open>process_input\<close> is not called, and the molecule fields
  are the empty lists.
\<close>

definition conversation_train_i2s ::
  "nat \<Rightarrow> string option \<Rightarrow> string option \<Rightarrow> string \<Rightarrow> bool \<Rightarrow> rng
     \<Rightarrow> (error + string list conversation) \<times> rng" where
  "conversation_train_i2s i inp outp format token g =
     (case random_choice PROMPT_TEMPLATES_i2s g of
        (Inl e, g') \<Rightarrow> (Inl e, g')
      | (Inr prompt_template, g') \<Rightarrow>
          (case replace_arg ''<INPUT>'' inp (tpl_input prompt_template) of
             Inl e \<Rightarrow> (Inl e, g')
           | Inr input_template \<Rightarrow>
               (case replace_arg ''<OUTPUT>'' outp (tpl_output prompt_template) of
                  Inl e \<Rightarrow> (Inl e, g')
                | Inr output_template \<Rightarrow>
                    (Inr \<lparr>conv_id = i,
                          molecules = \<lparr>selfies = [], smiles = []\<rparr>,
                          ground_truth = outp,
                          messages =
                            [\<lparr>role = ROLE_SYSTEM, content = SYSTEM_PROMPT\<rparr>,
                             \<lparr>role = ROLE_USER, content = input_template\<rparr>,
                             \<lparr>role = ROLE_ASSISTANT, content = output_template\<rparr>]\<rparr>,
                     g'))))"

definition conversation_test_i2s ::
  "nat \<Rightarrow> string option \<Rightarrow> string option \<Rightarrow> raw_record list option \<Rightarrow> string \<Rightarrow> bool
     \<Rightarrow> rng \<Rightarrow> (error + string list conversation) \<times> rng" where
  "conversation_test_i2s i inp outp few_shots format token g =
     (case random_choice PROMPT_TEMPLATES_i2s g of
        (Inl e, g') \<Rightarrow> (Inl e, g')
      | (Inr prompt_template, g') \<Rightarrow>
          (case replace_arg ''<INPUT>'' inp (tpl_input prompt_template) of
             Inl e \<Rightarrow> (Inl e, g')
           | Inr input_template \<Rightarrow>
               (Inr \<lparr>conv_id = i,
                     molecules = \<lparr>selfies = [], smiles = []\<rparr>,
                     ground_truth = outp,
                     messages =
                       [\<lparr>role = ROLE_SYSTEM, content = SYSTEM_PROMPT\<rparr>,
                        \<lparr>role = ROLE_USER,
                         content = few_shot_content few_shots input_template\<rparr>]\<rparr>,
                g')))"

section \<open>SMILES to formula: \<^verbatim>\<open>molecule_build_name_conversion_s2f_smol.py\<close>\<close>

definition PROMPT_TEMPLATES_s2f :: "prompt_template list" where
  "PROMPT_TEMPLATES_s2f =
   [\<lparr>tpl_input = ''<INPUT> is the representation of a molecule. What is its molecular formula?'',
     tpl_output = ''<OUTPUT>''\<rparr>,
    \<lparr>tpl_input = ''Convert the representation of a molecule <INPUT> into molecular formula.'',
     tpl_output = ''<OUTPUT>''\<rparr>,
    \<lparr>tpl_input = ''What is the formula of the molecule <INPUT> ?'',
     tpl_output = ''<OUTPUT>''\<rparr>,
    \<lparr>tpl_input = ''Can you give the molecular molecular formula of <INPUT> ?'',
     tpl_output = ''Sure. <OUTPUT>''\<rparr>,
    \<lparr>tpl_input = ''Please write the molecular formula of the molecule <INPUT> .'',
     tpl_output = ''<OUTPUT>''\<rparr>,
    \<lparr>tpl_input = ''Given the representation <INPUT>, what would be its molecular formula?'',
     tpl_output = ''It is <OUTPUT> .''\<rparr>,
    \<lparr>tpl_input = ''The representation <INPUT> represents a specific molecule. Can you reveal its molecular formula?'',
     tpl_output = ''Sure. It's <OUTPUT> .''\<rparr>,
    \<lparr>tpl_input = ''Considering the code <INPUT>, can you determine the corresponding molecular formula?'',
     tpl_output = ''It would be <OUTPUT> .''\<rparr>,
    \<lparr>tpl_input = ''Can you tell me the molecular formula of <INPUT> ?'',
     tpl_output = ''<OUTPUT>''\<rparr>,
    \<lparr>tpl_input = ''I'd like to know the molecular formula of <INPUT> . Can you tell me?'',
     tpl_output = ''Sure. It's <OUTPUT> .''\<rparr>,
    \<lparr>tpl_input = ''What is the molecular formula for the molecule denoted by <INPUT> ?'',
     tpl_output = ''<OUTPUT>''\<rparr>,
    \<lparr>tpl_input = ''What is the molecular formula of <INPUT> ?'',
     tpl_output = ''The molecular formula is <OUTPUT> .''\<rparr>,
    \<lparr>tpl_input = ''Please provide the molecular formula for <INPUT> .'',
     tpl_output = ''<OUTPUT>''\<rparr>]"

definition conversation_train_s2f ::
  "canonicalizer \<Rightarrow> selfies_encoder \<Rightarrow> nat \<Rightarrow> string option \<Rightarrow> string option \<Rightarrow> string
     \<Rightarrow> bool \<Rightarrow> rng \<Rightarrow> (error + string conversation) \<times> rng" where
  "conversation_train_s2f canon encoder i inp outp format token g =
     (case process_input canon encoder inp format token of
        Inl e \<Rightarrow> (Inl e, g)
      | Inr (sfs, smi, molecule) \<Rightarrow>
          (case random_choice PROMPT_TEMPLATES_s2f g of
             (Inl e, g') \<Rightarrow> (Inl e, g')
           | (Inr prompt_template, g') \<Rightarrow>
               (let input_template = str_replace ''<INPUT>'' molecule (tpl_input prompt_template)
                in case replace_arg ''<OUTPUT>'' outp (tpl_output prompt_template) of
                     Inl e \<Rightarrow> (Inl e, g')
                   | Inr output_template \<Rightarrow>
                       (Inr \<lparr>conv_id = i,
                             molecules = \<lparr>selfies = sfs, smiles = smi\<rparr>,
                             ground_truth = outp,
                             messages =
                               [\<lparr>role = ROLE_SYSTEM, content = SYSTEM_PROMPT\<rparr>,
                                \<lparr>role = ROLE_USER, content = input_template\<rparr>,
                                \<lparr>role = ROLE_ASSISTANT, content = output_template\<rparr>]\<rparr>,
                        g'))))"

definition conversation_test_s2f ::
  "canonicalizer \<Rightarrow> selfies_encoder \<Rightarrow> nat \<Rightarrow> string option \<Rightarrow> string option
     \<Rightarrow> raw_record list option \<Rightarrow> string \<Rightarrow> bool \<Rightarrow> rng
     \<Rightarrow> (error + string conversation) \<times> rng" where
  "conversation_test_s2f canon encoder i inp outp few_shots format token g =
     (case process_input canon encoder inp format token of
        Inl e \<Rightarrow> (Inl e, g)
      | Inr (sfs, smi, molecule) \<Rightarrow>
          (case random_choice PROMPT_TEMPLATES_s2f g of
             (Inl e, g') \<Rightarrow> (Inl e, g')
           | (Inr prompt_template, g') \<Rightarrow>
               (let input_template = str_replace ''<INPUT>'' molecule (tpl_input prompt_template)
                in (Inr \<lparr>conv_id = i,
                          molecules = \<lparr>selfies = sfs, smiles = smi\<rparr>,
                          ground_truth = outp,
                          messages =
                            [\<lparr>role = ROLE_SYSTEM, content = SYSTEM_PROMPT\<rparr>,
                             \<lparr>role = ROLE_USER,
                              content = few_shot_content few_shots input_template\<rparr>]\<rparr>,
                    g'))))"


section \<open>Few-shot sampling and the batch generator\<close>

text \<open>
  \<^verbatim>\<open>sorted(rows, key=lambda x: random.random())\<close> draws one key for every row and
  sorts the rows by their keys (a stable sort); the keys are read from the stream.
\<close>

definition sorted_by_random_key :: "'a list \<Rightarrow> rng \<Rightarrow> 'a list \<times> rng" where
  "sorted_by_random_key rows g =
     (map snd (sort_key fst (zip (map g [0..<length rows]) rows)),
      (\<lambda>i. g (i + length rows)))"

text \<open>
  \<^verbatim>\<open>random.sample(population, k)\<close> raises \<open>ValueError\<close> when \<open>k\<close> is negative or
  larger than the population; otherwise it draws \<open>k\<close> elements without replacement. The
  draws follow the pool variant of the library: the drawn slot is refilled with the last
  element of the pool, which then shrinks by one.
\<close>

fun sample_pool :: "'a list \<Rightarrow> nat \<Rightarrow> rng \<Rightarrow> 'a list \<times> rng" where
  "sample_pool pool 0 g = ([], g)"
| "sample_pool pool (Suc k) g =
     (let j = g 0 mod length pool;
          (rest, g') = sample_pool (butlast (pool[j := last pool])) k (rng_tail g)
      in (pool ! j # rest, g'))"

definition random_sample :: "'a list \<Rightarrow> int \<Rightarrow> rng \<Rightarrow> (error + 'a list) \<times> rng" where
  "random_sample population k g =
     (if k < 0 \<or> int (length population) < k then (Inl ValueError, g)
      else (case sample_pool population (nat k) g of (xs, g') \<Rightarrow> (Inr xs, g')))"

text \<open>
  \<open>generate_few_shot_examples\<close>, the same in both scripts. \<^verbatim>\<open>not num_examples\<close>
  holds for \<open>None\<close> and for \<open>0\<close>.
\<close>

definition generate_few_shot_examples ::
  "raw_record list \<Rightarrow> int option \<Rightarrow> rng \<Rightarrow> (error + raw_record list option) \<times> rng" where
  "generate_few_shot_examples rows num_examples g =
     (case num_examples of
        None \<Rightarrow> (Inr None, g)
      | Some n \<Rightarrow>
          if n = 0 then (Inr None, g)
          else (case sorted_by_random_key rows g of
                  (shuffled, g1) \<Rightarrow>
                    (case random_sample shuffled n g1 of
                       (Inl e, g2) \<Rightarrow> (Inl e, g2)
                     | (Inr xs, g2) \<Rightarrow> (Inr (Some xs), g2))))"

text \<open>
  \<open>main\<close> builds \<open>dataset\<close>, a dictionary with exactly the keys \<open>train\<close>, \<open>dev\<close>
  and \<open>test\<close>, and calls \<open>gen\<close> once for each of them.
\<close>

datatype split = Train | Dev | Test

text \<open>
  The loop of \<open>gen\<close>:
  \<^verbatim>\<open>for id, item in enumerate(dataset[split]): try: ...; yield result
    except Exception: pass\<close>.
  \<open>body\<close> is the \<open>try\<close> block; a row whose body raises yields nothing and the loop goes on
  with the next index. The result is the list of the records yielded, in order.
\<close>

fun gen_loop ::
  "(nat \<Rightarrow> raw_record \<Rightarrow> rng \<Rightarrow> (error + 'r) \<times> rng) \<Rightarrow> nat \<Rightarrow> raw_record list \<Rightarrow> rng
     \<Rightarrow> 'r list \<times> rng" where
  "gen_loop body i [] g = ([], g)"
| "gen_loop body i (item # items) g =
     (case body i item g of
        (Inr result, g') \<Rightarrow>
          (case gen_loop body (Suc i) items g' of (rs, g'') \<Rightarrow> (result # rs, g''))
      | (Inl e, g') \<Rightarrow> gen_loop body (Suc i) items g')"

definition gen_body_i2s ::
  "(split \<Rightarrow> raw_record list) \<Rightarrow> string \<Rightarrow> bool \<Rightarrow> split \<Rightarrow> nat \<Rightarrow> raw_record \<Rightarrow> rng
     \<Rightarrow> (error + string list conversation) \<times> rng" where
  "gen_body_i2s dataset format token split i item g =
     (case split of
        Train \<Rightarrow> conversation_train_i2s i (raw_input item) (raw_output item) format token g
      | Dev \<Rightarrow> conversation_train_i2s i (raw_input item) (raw_output item) format token g
      | Test \<Rightarrow>
          (case generate_few_shot_examples (dataset split) (Some 0) g of
             (Inl e, g1) \<Rightarrow> (Inl e, g1)
           | (Inr few_shots, g1) \<Rightarrow>
               conversation_test_i2s i (raw_input item) (raw_output item) few_shots
                 format token g1))"

definition gen_i2s ::
  "(split \<Rightarrow> raw_record list) \<Rightarrow> string \<Rightarrow> bool \<Rightarrow> split \<Rightarrow> rng
     \<Rightarrow> string list conversation list \<times> rng" where
  "gen_i2s dataset format token split g =
     gen_loop (gen_body_i2s dataset format token split) 0 (dataset split) g"

definition gen_body_s2f ::
  "canonicalizer \<Rightarrow> selfies_encoder \<Rightarrow> (split \<Rightarrow> raw_record list) \<Rightarrow> string \<Rightarrow> bool
     \<Rightarrow> split \<Rightarrow> nat \<Rightarrow> raw_record \<Rightarrow> rng \<Rightarrow> (error + string conversation) \<times> rng" where
  "gen_body_s2f canon encoder dataset format token split i item g =
     (case split of
        Train \<Rightarrow>
          conversation_train_s2f canon encoder i (raw_input item) (raw_output item)
            format token g
      | Dev \<Rightarrow>
          conversation_train_s2f canon encoder i (raw_input item) (raw_output item)
            format token g
      | Test \<Rightarrow>
          (case generate_few_shot_examples (dataset split) (Some 0) g of
             (Inl e, g1) \<Rightarrow> (Inl e, g1)
           | (Inr few_shots, g1) \<Rightarrow>
               conversation_test_s2f canon encoder i (raw_input item) (raw_output item)
                 few_shots format token g1))"

definition gen_s2f ::
  "canonicalizer \<Rightarrow> selfies_encoder \<Rightarrow> (split \<Rightarrow> raw_record list) \<Rightarrow> string \<Rightarrow> bool
     \<Rightarrow> split \<Rightarrow> rng \<Rightarrow> string conversation list \<times> rng" where
  "gen_s2f canon encoder dataset format token split g =
     gen_loop (gen_body_s2f canon encoder dataset format token split) 0 (dataset split) g"

text \<open>
  The command line of both scripts declares
  \<^verbatim>\<open>parser.add_argument("--token", type=bool, default=True)\<close>: the value given after
  \<^verbatim>\<open>--token\<close> is a string, converted by \<^verbatim>\<open>bool\<close>, which is true of every string
  but the empty one; without the option the default is used. The argument of \<open>arg_token\<close>
  is the string given, or \<open>None\<close> when the option is absent.
\<close>

definition py_bool_of_str :: "string \<Rightarrow> bool" where
  "py_bool_of_str s = (length s \<noteq> 0)"

definition arg_token :: "string option \<Rightarrow> bool" where
  "arg_token given = (case given of None \<Rightarrow> True | Some s \<Rightarrow> py_bool_of_str s)"

section \<open>Multi-image conversations: \<^verbatim>\<open>llava_gpt_build_multi_image_finetune_dataset.py\<close>\<close>

definition PROMPT_head :: string where
  "PROMPT_head =
     newline
     @ ''You are helping train a chat vision assistant that can take several image inputs and output text.''
     @ newline @ newline @ ''Here are the images you can see:'' @ newline"

text \<open>
  \<^verbatim>\<open>PROMPT.format(captions=..., question=...)\<close>: the text before \<^verbatim>\<open>{captions}\<close>, the
  captions, an empty line, the question and a final newline.
\<close>

definition PROMPT_format :: "string \<Rightarrow> string \<Rightarrow> string" where
  "PROMPT_format captions question =
     PROMPT_head @ captions @ newline @ newline @ question @ newline"

definition QUESTIONS :: "string list" where
  "QUESTIONS =
   [''Using the images and their captions above, ask a complex question about the relationship between the images.'',
    ''Ask a question that reasons about ALL of the images, for example, asking about how they are related or how one might lead to the other.'',
    ''Ask a question that reasons about ALL of the images, for example, asking about the relationship between objects in the images, asking about the location of objects in the images, etc.'',
    ''Ask a complex question that is relevant to the content some of images, for example, asking about background knowledge of the objects in the images, asking to discuss about events happening in the images, etc. Do not ask about uncertain details.'',
    ''Ask about the similarities among the provided images.'',
    ''Ask about the differences among the provided images.'',
    ''Ask about the last image.'',
    ''Ask about the first image.'',
    ''Ask about your thoughts on the images.'',
    ''Ask about how to use the items in the images.'',
    ''Ask a question that relates to the order of the images.'',
    ''Ask a question that relates to the numbering of the images.'']"

text \<open>\<^verbatim>\<open>str.strip()\<close>, on the whitespace characters of ASCII.\<close>

definition is_space :: "char \<Rightarrow> bool" where
  "is_space c = (let n = (of_char c :: nat) in (9 \<le> n \<and> n \<le> 13) \<or> (28 \<le> n \<and> n \<le> 32))"

definition strip :: "string \<Rightarrow> string" where
  "strip s = rev (dropWhile is_space (rev (dropWhile is_space s)))"

text \<open>\<^verbatim>\<open>s * n\<close> on a string.\<close>

definition str_times :: "string \<Rightarrow> nat \<Rightarrow> string" where
  "str_times s n = concat (replicate n s)"

record pretrain_example =
  pe_images :: "string list"
  pe_messages :: "message list"

record multi_image_example =
  mi_images :: "string list"
  mi_messages :: "message list"

text \<open>\<^verbatim>\<open>xs[i]\<close> for a non-negative index, and \<^verbatim>\<open>d[key]\<close> on a dictionary.\<close>

definition list_item :: "'a list \<Rightarrow> nat \<Rightarrow> error + 'a" where
  "list_item xs i = (if i < length xs then Inr (xs ! i) else Inl IndexError)"

definition dict_item :: "('k \<rightharpoonup> 'v) \<Rightarrow> 'k \<Rightarrow> error + 'v" where
  "dict_item d k = (case d k of None \<Rightarrow> Inl KeyError | Some v \<Rightarrow> Inr v)"

text \<open>A list comprehension whose element expression may raise: the first error wins.\<close>

fun map_err :: "('a \<Rightarrow> error + 'b) \<Rightarrow> 'a list \<Rightarrow> error + 'b list" where
  "map_err f [] = Inr []"
| "map_err f (x # xs) =
     (case f x of
        Inl e \<Rightarrow> Inl e
      | Inr y \<Rightarrow> (case map_err f xs of Inl e \<Rightarrow> Inl e | Inr ys \<Rightarrow> Inr (y # ys)))"

definition caption_line :: "nat \<times> string \<Rightarrow> string" where
  "caption_line p = ''Image '' @ str_nat (fst p + 1) @ '' - '' @ snd p"

text \<open>
  The chat-completion service is outside the script. \<open>client\<close> is the result of
  \<^verbatim>\<open>openai.Client()\<close>: an error, or the function from the system prompt to the decoded
  arguments of the \<open>create_chat\<close> call (\<^verbatim>\<open>json.loads(...)\<close>), which may raise as well.
\<close>

type_synonym chat_client = "error + (string \<Rightarrow> error + (string \<rightharpoonup> string))"

definition build_convo ::
  "chat_client \<Rightarrow> pretrain_example list \<Rightarrow> rng \<Rightarrow> (error + multi_image_example) \<times> rng" where
  "build_convo client pretrain_examples g =
     (case client of
        Inl e \<Rightarrow> (Inl e, g)
      | Inr create \<Rightarrow>
     (case map_err (\<lambda>e. case list_item (pe_messages e) 1 of
                            Inl err \<Rightarrow> Inl err | Inr m \<Rightarrow> Inr (content m)) pretrain_examples of
        Inl e \<Rightarrow> (Inl e, g)
      | Inr captions \<Rightarrow>
     (case map_err (\<lambda>e. list_item (pe_images e) 0) pretrain_examples of
        Inl e \<Rightarrow> (Inl e, g)
      | Inr paths \<Rightarrow>
     (let captions_text = join newline (map caption_line (enumerate 0 captions))
      in case random_choice QUESTIONS g of
        (Inl e, g1) \<Rightarrow> (Inl e, g1)
      | (Inr question, g1) \<Rightarrow>
     (let prompt = strip (PROMPT_format captions_text question)
      in case create prompt of
        Inl e \<Rightarrow> (Inl e, g1)
      | Inr resp \<Rightarrow>
     (case dict_item resp ''question'' of
        Inl e \<Rightarrow> (Inl e, g1)
      | Inr q \<Rightarrow>
     (case dict_item resp ''answer'' of
        Inl e \<Rightarrow> (Inl e, g1)
      | Inr a \<Rightarrow>
     (case random_choice [True, False] g1 of
        (Inl e, g2) \<Rightarrow> (Inl e, g2)
      | (Inr front, g2) \<Rightarrow>
     (let q' = (if front then str_times ''<image>'' (length captions) @ '' '' @ q
                else q @ '' '' @ str_times ''<image>'' (length captions))
      in (Inr \<lparr>mi_images = paths,
                mi_messages =
                  [\<lparr>role = ROLE_USER, content = q'\<rparr>,
                   \<lparr>role = ROLE_ASSISTANT, content = a\<rparr>]\<rparr>,
          g2))))))))))"

section \<open>Properties stated about strings\<close>

text \<open>The number of positions of \<open>s\<close> at which \<open>sub\<close> occurs.\<close>

fun occurrences :: "string \<Rightarrow> string \<Rightarrow> nat" where
  "occurrences sub [] = 0"
| "occurrences sub (c # cs) = (if prefix sub (c # cs) then 1 else 0) + occurrences sub cs"


section \<open>Concrete inputs used in the examples\<close>

text \<open>
  A generator that always draws \<open>0\<close>, a stand-in for the chemistry toolkit that knows
  ethanol and methane and rejects everything else, and two small splits with a row in the
  middle that cannot be assembled.
\<close>

definition rng_zero :: rng where
  "rng_zero = (\<lambda>i. 0)"

definition example_canon :: canonicalizer where
  "example_canon inp =
     (case inp of
        None \<Rightarrow> Inl TypeError
      | Some s \<Rightarrow>
          if s = ''CCO'' \<or> s = ''OCC'' then Inr ''CCO''
          else if s = ''C'' then Inr ''C''
          else Inl CanonicalizationError)"

definition example_encoder :: selfies_encoder where
  "example_encoder s =
     (if s = ''CCO'' then Inr ''[C][C][O]''
      else if s = ''C'' then Inr ''[C]''
      else Inl EncodingError)"

definition example_dataset_i2s :: "split \<Rightarrow> raw_record list" where
  "example_dataset_i2s split =
     [\<lparr>raw_input = Some ''ethanol'', raw_output = Some ''CCO''\<rparr>,
      \<lparr>raw_input = None, raw_output = Some ''C''\<rparr>,
      \<lparr>raw_input = Some ''methane'', raw_output = Some ''C''\<rparr>]"

definition example_dataset_s2f :: "split \<Rightarrow> raw_record list" where
  "example_dataset_s2f split =
     [\<lparr>raw_input = Some ''CCO'', raw_output = Some ''C2H6O''\<rparr>,
      \<lparr>raw_input = Some ''not a molecule'', raw_output = Some ''H2O''\<rparr>,
      \<lparr>raw_input = Some ''C'', raw_output = Some ''CH4''\<rparr>]"

text \<open>A text that holds neither placeholder of the templates.\<close>

definition placeholder_free :: "string \<Rightarrow> bool" where
  "placeholder_free s = (\<not> contains ''<INPUT>'' s \<and> \<not> contains ''<OUTPUT>'' s)"

text \<open>A split whose only row holds the placeholders themselves.\<close>

definition example_dataset_placeholder :: "split \<Rightarrow> raw_record list" where
  "example_dataset_placeholder split =
     [\<lparr>raw_input = Some ''<INPUT>'', raw_output = Some ''<OUTPUT>''\<rparr>]"

text \<open>
  A stand-in for the chat-completion service that answers every prompt with the same
  question and answer, and two captioned images.
\<close>

definition example_client :: chat_client where
  "example_client =
     Inr (\<lambda>prompt. Inr [''question'' \<mapsto> ''What links the two images?'',
                        ''answer'' \<mapsto> ''Both show a harbour.''])"

definition example_pretrain :: "pretrain_example list" where
  "example_pretrain =
     [\<lparr>pe_images = [''boats.jpg''],
       pe_messages = [\<lparr>role = ROLE_USER, content = ''<image> Describe the image.''\<rparr>,
                      \<lparr>role = ROLE_ASSISTANT, content = ''boats in a harbour''\<rparr>]\<rparr>,
      \<lparr>pe_images = [''pier.jpg''],
       pe_messages = [\<lparr>role = ROLE_USER, content = ''<image> Describe the image.''\<rparr>,
                      \<lparr>role = ROLE_ASSISTANT, content = ''a pier at dusk''\<rparr>]\<rparr>]"

section \<open>Facts about the string operations\<close>

lemma prefix_sep:
  assumes "c \<notin> set sub"
  shows "prefix sub (xs @ c # ys) \<longleftrightarrow> prefix sub xs"
proof
  assume "prefix sub (xs @ c # ys)"
  then consider "prefix sub xs" | us where "sub = xs @ us" "prefix us (c # ys)"
    by (auto simp: prefix_append)
  then show "prefix sub xs"
  proof cases
    case 1 then show ?thesis .
  next
    case 2
    with assms have "us = []" by (cases us) auto
    with 2 show ?thesis by simp
  qed
next
  assume "prefix sub xs" then show "prefix sub (xs @ c # ys)" by (rule prefix_prefix)
qed

lemma contains_Nil [simp]: "contains [] s"
  by (cases s) auto

text \<open>A character that does not occur in \<open>sub\<close> separates the occurrences of \<open>sub\<close>.\<close>

lemma contains_sep:
  assumes "c \<notin> set sub"
  shows "contains sub (xs @ c # ys) \<longleftrightarrow> contains sub xs \<or> contains sub ys"
proof (induction xs)
  case Nil
  from assms have "prefix sub (c # ys) \<longleftrightarrow> sub = []" by (cases sub) auto
  then show ?case by auto
next
  case (Cons x xs)
  have "prefix sub (x # xs @ c # ys) \<longleftrightarrow> prefix sub (x # xs)"
    using prefix_sep [OF assms, of "x # xs" ys] by simp
  with Cons show ?case by auto
qed

lemma occurrences_sep:
  assumes "c \<notin> set sub" and "sub \<noteq> []"
  shows "occurrences sub (xs @ c # ys) = occurrences sub xs + occurrences sub ys"
proof (induction xs)
  case Nil
  from assms have "\<not> prefix sub (c # ys)" by (cases sub) auto
  then show ?case by simp
next
  case (Cons x xs)
  have "prefix sub (x # xs @ c # ys) \<longleftrightarrow> prefix sub (x # xs)"
    using prefix_sep [OF assms(1), of "x # xs" ys] by simp
  with Cons show ?case by simp
qed

lemma rng_tail_zero [simp]: "rng_tail rng_zero = rng_zero"
  by (simp add: rng_tail_def rng_zero_def)

lemma rng_zero_0 [simp]: "rng_zero n = 0"
  by (simp add: rng_zero_def)

section \<open>Facts about the generator loop\<close>

lemma gen_loop_mem:
  "r \<in> set (fst (gen_loop body i items g))
     \<Longrightarrow> \<exists>j g'. j < length items \<and> fst (body (i + j) (items ! j) g') = Inr r"
proof (induction items arbitrary: i g)
  case Nil
  then show ?case by simp
next
  case (Cons item items)
  obtain res g1 where b: "body i item g = (res, g1)" by (cases "body i item g")
  show ?case
  proof (cases res)
    case (Inl e)
    with b Cons.prems have "r \<in> set (fst (gen_loop body (Suc i) items g1))" by simp
    from Cons.IH [OF this] obtain j g' where
      "j < length items" "fst (body (Suc i + j) (items ! j) g') = Inr r" by blast
    then have "Suc j < length (item # items) \<and>
               fst (body (i + Suc j) ((item # items) ! Suc j) g') = Inr r" by simp
    then show ?thesis by blast
  next
    case (Inr x)
    with b Cons.prems have "r = x \<or> r \<in> set (fst (gen_loop body (Suc i) items g1))"
      by (auto split: prod.splits)
    then show ?thesis
    proof
      assume "r = x"
      with b Inr have "0 < length (item # items) \<and>
                       fst (body (i + 0) ((item # items) ! 0) g) = Inr r" by simp
      then show ?thesis by blast
    next
      assume "r \<in> set (fst (gen_loop body (Suc i) items g1))"
      from Cons.IH [OF this] obtain j g' where
        "j < length items" "fst (body (Suc i + j) (items ! j) g') = Inr r" by blast
      then have "Suc j < length (item # items) \<and>
                 fst (body (i + Suc j) ((item # items) ! Suc j) g') = Inr r" by simp
      then show ?thesis by blast
    qed
  qed
qed

lemma gen_loop_ids:
  assumes bad: "\<And>i item g. isl (fst (body i item g)) = bad item"
    and ident: "\<And>i item g r. fst (body i item g) = Inr r \<Longrightarrow> ident r = i"
  shows "map ident (fst (gen_loop body i items g))
           = map fst (filter (\<lambda>p. \<not> bad (snd p)) (enumerate i items))"
proof (induction items arbitrary: i g)
  case Nil
  then show ?case by simp
next
  case (Cons item items)
  obtain res g1 where b: "body i item g = (res, g1)" by (cases "body i item g")
  show ?case
  proof (cases res)
    case (Inl e)
    with b bad [of i item g] have "bad item" by simp
    with b Inl Cons.IH [of "Suc i" g1] show ?thesis by simp
  next
    case (Inr x)
    with b bad [of i item g] have "\<not> bad item" by simp
    moreover from b Inr ident [of i item g x] have "ident x = i" by simp
    ultimately show ?thesis
      using b Inr Cons.IH [of "Suc i" g1]
      by (cases "gen_loop body (Suc i) items g1") simp
  qed
qed

lemma enumerate_filter_length:
  assumes "i < length xs" and "\<not> P (xs ! i)"
  shows "length (filter (\<lambda>p. P (snd p)) (enumerate 0 xs)) \<le> length xs - 1"
proof -
  have "(i, xs ! i) \<in> set (enumerate 0 xs)"
    using assms(1) by (simp add: in_set_enumerate_eq)
  with assms(2) have "length (filter (\<lambda>p. P (snd p)) (enumerate 0 xs)) < length (enumerate 0 xs)"
    by (intro length_filter_less [where x = "(i, xs ! i)"]) simp_all
  then show ?thesis by simp
qed


lemma ids_set:
  "set (map fst (filter (\<lambda>p. P (snd p)) (enumerate 0 xs))) = {j. j < length xs \<and> P (xs ! j)}"
  by (auto simp: in_set_enumerate_eq image_iff)

lemma gen_loop_id_set:
  assumes bad: "\<And>i item g. isl (fst (body i item g)) = bad item"
    and ident: "\<And>i item g r. fst (body i item g) = Inr r \<Longrightarrow> ident r = i"
  shows "ident ` set (fst (gen_loop body 0 items g))
           = {j. j < length items \<and> \<not> bad (items ! j)}"
proof -
  have "ident ` set (fst (gen_loop body 0 items g))
          = set (map ident (fst (gen_loop body 0 items g)))" by simp
  also have "\<dots> = set (map fst (filter (\<lambda>p. \<not> bad (snd p)) (enumerate 0 items)))"
    using gen_loop_ids [of body bad ident 0 items g] bad ident by simp
  also have "\<dots> = {j. j < length items \<and> \<not> bad (items ! j)}"
    by (rule ids_set)
  finally show ?thesis .
qed

lemma gen_loop_length:
  assumes bad: "\<And>i item g. isl (fst (body i item g)) = bad item"
    and ident: "\<And>i item g r. fst (body i item g) = Inr r \<Longrightarrow> ident r = i"
    and i: "i < length items" "bad (items ! i)"
  shows "length (fst (gen_loop body 0 items g)) \<le> length items - 1"
proof -
  have "length (fst (gen_loop body 0 items g))
          = length (map ident (fst (gen_loop body 0 items g)))" by simp
  also have "\<dots> = length (map fst (filter (\<lambda>p. \<not> bad (snd p)) (enumerate 0 items)))"
    using gen_loop_ids [of body bad ident 0 items g] bad ident by simp
  also have "\<dots> \<le> length items - 1"
    using enumerate_filter_length [of i items "\<lambda>item. \<not> bad item"] i by simp
  finally show ?thesis .
qed

section \<open>Facts about the assemblers\<close>

lemma templates_i2s_length: "length PROMPT_TEMPLATES_i2s = 13"
  by (simp add: PROMPT_TEMPLATES_i2s_def)

lemma templates_s2f_length: "length PROMPT_TEMPLATES_s2f = 13"
  by (simp add: PROMPT_TEMPLATES_s2f_def)

lemma choice_i2s:
  "random_choice PROMPT_TEMPLATES_i2s g = (Inr (PROMPT_TEMPLATES_i2s ! (g 0 mod 13)), rng_tail g)"
  using templates_i2s_length by (auto simp: random_choice_def)

lemma choice_s2f:
  "random_choice PROMPT_TEMPLATES_s2f g = (Inr (PROMPT_TEMPLATES_s2f ! (g 0 mod 13)), rng_tail g)"
  using templates_s2f_length by (auto simp: random_choice_def)

lemma chosen_i2s_mem: "PROMPT_TEMPLATES_i2s ! (n mod 13) \<in> set PROMPT_TEMPLATES_i2s"
  by (rule nth_mem) (simp add: templates_i2s_length)

lemma chosen_s2f_mem: "PROMPT_TEMPLATES_s2f ! (n mod 13) \<in> set PROMPT_TEMPLATES_s2f"
  by (rule nth_mem) (simp add: templates_s2f_length)

lemma train_i2s_cases:
  "conversation_train_i2s i inp outp format token g =
     (case inp of
        None \<Rightarrow> (Inl TypeError, rng_tail g)
      | Some a \<Rightarrow>
          (case outp of
             None \<Rightarrow> (Inl TypeError, rng_tail g)
           | Some b \<Rightarrow>
               (Inr \<lparr>conv_id = i, molecules = \<lparr>selfies = [], smiles = []\<rparr>,
                     ground_truth = Some b,
                     messages =
                       [\<lparr>role = ROLE_SYSTEM, content = SYSTEM_PROMPT\<rparr>,
                        \<lparr>role = ROLE_USER,
                         content = str_replace ''<INPUT>'' a
                                     (tpl_input (PROMPT_TEMPLATES_i2s ! (g 0 mod 13)))\<rparr>,
                        \<lparr>role = ROLE_ASSISTANT,
                         content = str_replace ''<OUTPUT>'' b
                                     (tpl_output (PROMPT_TEMPLATES_i2s ! (g 0 mod 13)))\<rparr>]\<rparr>,
                rng_tail g)))"
  by (simp add: conversation_train_i2s_def choice_i2s replace_arg_def split: option.splits)

lemma test_i2s_cases:
  "conversation_test_i2s i inp outp few_shots format token g =
     (case inp of
        None \<Rightarrow> (Inl TypeError, rng_tail g)
      | Some a \<Rightarrow>
          (Inr \<lparr>conv_id = i, molecules = \<lparr>selfies = [], smiles = []\<rparr>,
                ground_truth = outp,
                messages =
                  [\<lparr>role = ROLE_SYSTEM, content = SYSTEM_PROMPT\<rparr>,
                   \<lparr>role = ROLE_USER,
                    content = few_shot_content few_shots
                                (str_replace ''<INPUT>'' a
                                   (tpl_input (PROMPT_TEMPLATES_i2s ! (g 0 mod 13))))\<rparr>]\<rparr>,
           rng_tail g))"
  by (simp add: conversation_test_i2s_def choice_i2s replace_arg_def split: option.splits)

lemma train_s2f_cases:
  "conversation_train_s2f canon encoder i inp outp format token g =
     (case process_input canon encoder inp format token of
        Inl e \<Rightarrow> (Inl e, g)
      | Inr (sfs, smi, molecule) \<Rightarrow>
          (case outp of
             None \<Rightarrow> (Inl TypeError, rng_tail g)
           | Some b \<Rightarrow>
               (Inr \<lparr>conv_id = i, molecules = \<lparr>selfies = sfs, smiles = smi\<rparr>,
                     ground_truth = Some b,
                     messages =
                       [\<lparr>role = ROLE_SYSTEM, content = SYSTEM_PROMPT\<rparr>,
                        \<lparr>role = ROLE_USER,
                         content = str_replace ''<INPUT>'' molecule
                                     (tpl_input (PROMPT_TEMPLATES_s2f ! (g 0 mod 13)))\<rparr>,
                        \<lparr>role = ROLE_ASSISTANT,
                         content = str_replace ''<OUTPUT>'' b
                                     (tpl_output (PROMPT_TEMPLATES_s2f ! (g 0 mod 13)))\<rparr>]\<rparr>,
                rng_tail g)))"
  by (simp add: conversation_train_s2f_def choice_s2f replace_arg_def
           split: option.splits sum.splits prod.splits)

lemma test_s2f_cases:
  "conversation_test_s2f canon encoder i inp outp few_shots format token g =
     (case process_input canon encoder inp format token of
        Inl e \<Rightarrow> (Inl e, g)
      | Inr (sfs, smi, molecule) \<Rightarrow>
          (Inr \<lparr>conv_id = i, molecules = \<lparr>selfies = sfs, smiles = smi\<rparr>,
                ground_truth = outp,
                messages =
                  [\<lparr>role = ROLE_SYSTEM, content = SYSTEM_PROMPT\<rparr>,
                   \<lparr>role = ROLE_USER,
                    content = few_shot_content few_shots
                                (str_replace ''<INPUT>'' molecule
                                   (tpl_input (PROMPT_TEMPLATES_s2f ! (g 0 mod 13))))\<rparr>]\<rparr>,
           rng_tail g))"
  by (simp add: conversation_test_s2f_def choice_s2f
           split: option.splits sum.splits prod.splits)

lemma few_shots_zero: "generate_few_shot_examples rows (Some 0) g = (Inr None, g)"
  by (simp add: generate_few_shot_examples_def)

lemma body_i2s_cases:
  "gen_body_i2s dataset format token split i item g =
     (if split = Test
      then conversation_test_i2s i (raw_input item) (raw_output item) None format token g
      else conversation_train_i2s i (raw_input item) (raw_output item) format token g)"
  by (cases split) (simp_all add: gen_body_i2s_def few_shots_zero)

lemma body_s2f_cases:
  "gen_body_s2f canon encoder dataset format token split i item g =
     (if split = Test
      then conversation_test_s2f canon encoder i (raw_input item) (raw_output item) None
             format token g
      else conversation_train_s2f canon encoder i (raw_input item) (raw_output item)
             format token g)"
  by (cases split) (simp_all add: gen_body_s2f_def few_shots_zero)

lemma body_i2s_isl:
  "isl (fst (gen_body_i2s dataset format token split i item g))
     = (raw_input item = None \<or> (split \<noteq> Test \<and> raw_output item = None))"
  by (simp add: body_i2s_cases train_i2s_cases test_i2s_cases split: option.splits)

lemma body_s2f_isl:
  "isl (fst (gen_body_s2f canon encoder dataset format token split i item g))
     = (isl (process_input canon encoder (raw_input item) format token)
        \<or> (split \<noteq> Test \<and> raw_output item = None))"
  by (simp add: body_s2f_cases train_s2f_cases test_s2f_cases
           split: option.splits sum.splits prod.splits)

lemma body_i2s_id:
  "fst (gen_body_i2s dataset format token split i item g) = Inr r \<Longrightarrow> conv_id r = i"
  by (auto simp: body_i2s_cases train_i2s_cases test_i2s_cases split: option.splits if_splits)

lemma body_s2f_id:
  "fst (gen_body_s2f canon encoder dataset format token split i item g) = Inr r
     \<Longrightarrow> conv_id r = i"
  by (auto simp: body_s2f_cases train_s2f_cases test_s2f_cases
           split: option.splits if_splits sum.splits prod.splits)

lemma gen_i2s_ids:
  "map conv_id (fst (gen_i2s dataset format token split g))
     = map fst (filter (\<lambda>p. \<not> (raw_input (snd p) = None \<or> (split \<noteq> Test \<and> raw_output (snd p) = None)))
                  (enumerate 0 (dataset split)))"
  unfolding gen_i2s_def
  by (rule gen_loop_ids) (simp_all add: body_i2s_isl body_i2s_id)

lemma gen_s2f_ids:
  "map conv_id (fst (gen_s2f canon encoder dataset format token split g))
     = map fst (filter (\<lambda>p. \<not> (isl (process_input canon encoder (raw_input (snd p)) format token)
                               \<or> (split \<noteq> Test \<and> raw_output (snd p) = None)))
                  (enumerate 0 (dataset split)))"
  unfolding gen_s2f_def
  by (rule gen_loop_ids) (simp_all add: body_s2f_isl body_s2f_id)

lemma gen_i2s_source:
  assumes "r \<in> set (fst (gen_i2s dataset format token split g))"
  shows "conv_id r < length (dataset split)
       \<and> (\<exists>g'. fst (gen_body_i2s dataset format token split (conv_id r)
                      (dataset split ! conv_id r) g') = Inr r)"
proof -
  from assms obtain j g' where j: "j < length (dataset split)"
    and b: "fst (gen_body_i2s dataset format token split (0 + j) (dataset split ! j) g') = Inr r"
    unfolding gen_i2s_def by (blast dest: gen_loop_mem)
  from b have "conv_id r = j" by (simp add: body_i2s_id)
  with j b show ?thesis by auto
qed

lemma gen_s2f_source:
  assumes "r \<in> set (fst (gen_s2f canon encoder dataset format token split g))"
  shows "conv_id r < length (dataset split)
       \<and> (\<exists>g'. fst (gen_body_s2f canon encoder dataset format token split (conv_id r)
                      (dataset split ! conv_id r) g') = Inr r)"
proof -
  from assms obtain j g' where j: "j < length (dataset split)"
    and b: "fst (gen_body_s2f canon encoder dataset format token split (0 + j)
                  (dataset split ! j) g') = Inr r"
    unfolding gen_s2f_def by (blast dest: gen_loop_mem)
  from b have "conv_id r = j" by (simp add: body_s2f_id)
  with j b show ?thesis by auto
qed

lemma conv_roles_i2s:
  assumes "fst (gen_body_i2s dataset format token split i item g) = Inr r"
  shows "map role (messages r)
           = (if split = Test then [ROLE_SYSTEM, ROLE_USER]
              else [ROLE_SYSTEM, ROLE_USER, ROLE_ASSISTANT])
         \<and> ground_truth r = raw_output item"
  using assms
  by (auto simp: body_i2s_cases train_i2s_cases test_i2s_cases split: option.splits if_splits)

lemma conv_roles_s2f:
  assumes "fst (gen_body_s2f canon encoder dataset format token split i item g) = Inr r"
  shows "map role (messages r)
           = (if split = Test then [ROLE_SYSTEM, ROLE_USER]
              else [ROLE_SYSTEM, ROLE_USER, ROLE_ASSISTANT])
         \<and> ground_truth r = raw_output item"
  using assms
  by (auto simp: body_s2f_cases train_s2f_cases test_s2f_cases
           split: option.splits if_splits sum.splits prod.splits)

lemma gen_i2s_id_set:
  "conv_id ` set (fst (gen_i2s dataset format token split g))
     = {j. j < length (dataset split)
           \<and> \<not> (raw_input (dataset split ! j) = None
                 \<or> (split \<noteq> Test \<and> raw_output (dataset split ! j) = None))}"
  unfolding gen_i2s_def
  by (rule gen_loop_id_set) (simp_all add: body_i2s_isl body_i2s_id)

lemma gen_s2f_id_set:
  "conv_id ` set (fst (gen_s2f canon encoder dataset format token split g))
     = {j. j < length (dataset split)
           \<and> \<not> (isl (process_input canon encoder (raw_input (dataset split ! j)) format token)
                 \<or> (split \<noteq> Test \<and> raw_output (dataset split ! j) = None))}"
  unfolding gen_s2f_def
  by (rule gen_loop_id_set) (simp_all add: body_s2f_isl body_s2f_id)

lemma gen_i2s_skip:
  assumes "i < length (dataset split)"
    and "fst (gen_body_i2s dataset format token split i (dataset split ! i) g0) = Inl e"
  shows "i \<notin> conv_id ` set (fst (gen_i2s dataset format token split g))"
    and "length (fst (gen_i2s dataset format token split g)) \<le> length (dataset split) - 1"
proof -
  let ?bad = "\<lambda>item. raw_input item = None \<or> (split \<noteq> Test \<and> raw_output item = None)"
  from assms(2) have bad: "?bad (dataset split ! i)"
    using body_i2s_isl [of dataset format token split i "dataset split ! i" g0] by simp
  then show "i \<notin> conv_id ` set (fst (gen_i2s dataset format token split g))"
    by (simp only: gen_i2s_id_set) simp
  show "length (fst (gen_i2s dataset format token split g)) \<le> length (dataset split) - 1"
    unfolding gen_i2s_def
    by (rule gen_loop_length [where bad = ?bad and ident = conv_id and i = i])
       (simp_all add: body_i2s_isl body_i2s_id assms(1) bad)
qed

lemma gen_i2s_continue:
  assumes "j < length (dataset split)"
    and "fst (gen_body_i2s dataset format token split j (dataset split ! j) g0) = Inr r"
  shows "j \<in> conv_id ` set (fst (gen_i2s dataset format token split g))"
proof -
  from assms(2)
  have "\<not> (raw_input (dataset split ! j) = None
            \<or> (split \<noteq> Test \<and> raw_output (dataset split ! j) = None))"
    using body_i2s_isl [of dataset format token split j "dataset split ! j" g0] by simp
  with assms(1) show ?thesis by (simp only: gen_i2s_id_set) simp
qed

lemma gen_s2f_skip:
  assumes "i < length (dataset split)"
    and "fst (gen_body_s2f canon encoder dataset format token split i (dataset split ! i) g0)
           = Inl e"
  shows "i \<notin> conv_id ` set (fst (gen_s2f canon encoder dataset format token split g))"
    and "length (fst (gen_s2f canon encoder dataset format token split g))
           \<le> length (dataset split) - 1"
proof -
  let ?bad = "\<lambda>item. isl (process_input canon encoder (raw_input item) format token)
                 \<or> (split \<noteq> Test \<and> raw_output item = None)"
  from assms(2) have bad: "?bad (dataset split ! i)"
    using body_s2f_isl [of canon encoder dataset format token split i "dataset split ! i" g0]
    by simp
  then show "i \<notin> conv_id ` set (fst (gen_s2f canon encoder dataset format token split g))"
    by (simp only: gen_s2f_id_set) simp
  show "length (fst (gen_s2f canon encoder dataset format token split g))
          \<le> length (dataset split) - 1"
    unfolding gen_s2f_def
    by (rule gen_loop_length [where bad = ?bad and ident = conv_id and i = i])
       (simp_all add: body_s2f_isl body_s2f_id assms(1) bad)
qed

lemma gen_s2f_continue:
  assumes "j < length (dataset split)"
    and "fst (gen_body_s2f canon encoder dataset format token split j (dataset split ! j) g0)
           = Inr r"
  shows "j \<in> conv_id ` set (fst (gen_s2f canon encoder dataset format token split g))"
proof -
  from assms(2)
  have "\<not> (isl (process_input canon encoder (raw_input (dataset split ! j)) format token)
            \<or> (split \<noteq> Test \<and> raw_output (dataset split ! j) = None))"
    using body_s2f_isl [of canon encoder dataset format token split j "dataset split ! j" g0]
    by simp
  with assms(1) show ?thesis by (simp only: gen_s2f_id_set) simp
qed

section \<open>The generators on the example splits\<close>

lemma ex_gen_i2s_train:
  "fst (gen_i2s example_dataset_i2s format token Train rng_zero) =
     [\<lparr>conv_id = 0, molecules = \<lparr>selfies = [], smiles = []\<rparr>, ground_truth = Some ''CCO'',
       messages =
         [\<lparr>role = ROLE_SYSTEM, content = SYSTEM_PROMPT\<rparr>,
          \<lparr>role = ROLE_USER,
           content = ''ethanol is the IUPAC name of a molecule. Please give its SMILES representation.''\<rparr>,
          \<lparr>role = ROLE_ASSISTANT, content = ''CCO''\<rparr>]\<rparr>,
      \<lparr>conv_id = 2, molecules = \<lparr>selfies = [], smiles = []\<rparr>, ground_truth = Some ''C'',
       messages =
         [\<lparr>role = ROLE_SYSTEM, content = SYSTEM_PROMPT\<rparr>,
          \<lparr>role = ROLE_USER,
           content = ''methane is the IUPAC name of a molecule. Please give its SMILES representation.''\<rparr>,
          \<lparr>role = ROLE_ASSISTANT, content = ''C''\<rparr>]\<rparr>]"
  by (simp add: gen_i2s_def example_dataset_i2s_def body_i2s_cases train_i2s_cases
        PROMPT_TEMPLATES_i2s_def)

lemma ex_gen_s2f_train:
  "fst (gen_s2f example_canon example_encoder example_dataset_s2f ''smiles'' True Train rng_zero) =
     [\<lparr>conv_id = 0, molecules = \<lparr>selfies = ''[C][C][O]'', smiles = ''CCO''\<rparr>,
       ground_truth = Some ''C2H6O'',
       messages =
         [\<lparr>role = ROLE_SYSTEM, content = SYSTEM_PROMPT\<rparr>,
          \<lparr>role = ROLE_USER,
           content = ''<molecule_2d> is the representation of a molecule. What is its molecular formula?''\<rparr>,
          \<lparr>role = ROLE_ASSISTANT, content = ''C2H6O''\<rparr>]\<rparr>,
      \<lparr>conv_id = 2, molecules = \<lparr>selfies = ''[C]'', smiles = ''C''\<rparr>,
       ground_truth = Some ''CH4'',
       messages =
         [\<lparr>role = ROLE_SYSTEM, content = SYSTEM_PROMPT\<rparr>,
          \<lparr>role = ROLE_USER,
           content = ''<molecule_2d> is the representation of a molecule. What is its molecular formula?''\<rparr>,
          \<lparr>role = ROLE_ASSISTANT, content = ''CH4''\<rparr>]\<rparr>]"
  by (simp add: gen_s2f_def example_dataset_s2f_def body_s2f_cases train_s2f_cases
        PROMPT_TEMPLATES_s2f_def process_input_def example_canon_def example_encoder_def
        MOLECULE_TOKEN_def)

lemma ex_gen_i2s_test:
  "fst (gen_i2s example_dataset_i2s format token Test rng_zero) =
     [\<lparr>conv_id = 0, molecules = \<lparr>selfies = [], smiles = []\<rparr>, ground_truth = Some ''CCO'',
       messages =
         [\<lparr>role = ROLE_SYSTEM, content = SYSTEM_PROMPT\<rparr>,
          \<lparr>role = ROLE_USER,
           content = ''ethanol is the IUPAC name of a molecule. Please give its SMILES representation.''\<rparr>]\<rparr>,
      \<lparr>conv_id = 2, molecules = \<lparr>selfies = [], smiles = []\<rparr>, ground_truth = Some ''C'',
       messages =
         [\<lparr>role = ROLE_SYSTEM, content = SYSTEM_PROMPT\<rparr>,
          \<lparr>role = ROLE_USER,
           content = ''methane is the IUPAC name of a molecule. Please give its SMILES representation.''\<rparr>]\<rparr>]"
  by (simp add: gen_i2s_def example_dataset_i2s_def body_i2s_cases test_i2s_cases
        PROMPT_TEMPLATES_i2s_def few_shot_content_def)

lemma ex_gen_s2f_test:
  "fst (gen_s2f example_canon example_encoder example_dataset_s2f ''smiles'' True Test rng_zero) =
     [\<lparr>conv_id = 0, molecules = \<lparr>selfies = ''[C][C][O]'', smiles = ''CCO''\<rparr>,
       ground_truth = Some ''C2H6O'',
       messages =
         [\<lparr>role = ROLE_SYSTEM, content = SYSTEM_PROMPT\<rparr>,
          \<lparr>role = ROLE_USER,
           content = ''<molecule_2d> is the representation of a molecule. What is its molecular formula?''\<rparr>]\<rparr>,
      \<lparr>conv_id = 2, molecules = \<lparr>selfies = ''[C]'', smiles = ''C''\<rparr>,
       ground_truth = Some ''CH4'',
       messages =
         [\<lparr>role = ROLE_SYSTEM, content = SYSTEM_PROMPT\<rparr>,
          \<lparr>role = ROLE_USER,
           content = ''<molecule_2d> is the representation of a molecule. What is its molecular formula?''\<rparr>]\<rparr>]"
  by (simp add: gen_s2f_def example_dataset_s2f_def body_s2f_cases test_s2f_cases
        PROMPT_TEMPLATES_s2f_def process_input_def example_canon_def example_encoder_def
        MOLECULE_TOKEN_def few_shot_content_def)

section \<open>Facts about the templates\<close>

lemma input_i2s_free:
  assumes "t \<in> set PROMPT_TEMPLATES_i2s" and "placeholder_free v"
  shows "placeholder_free (str_replace ''<INPUT>'' v (tpl_input t))"
  using assms
  apply (simp add: PROMPT_TEMPLATES_i2s_def placeholder_free_def)
  apply (elim disjE conjE)
  apply (simp_all add: contains_sep)
  done

lemma output_i2s_free:
  assumes "t \<in> set PROMPT_TEMPLATES_i2s" and "placeholder_free v"
  shows "placeholder_free (str_replace ''<OUTPUT>'' v (tpl_output t))"
  using assms
  apply (simp add: PROMPT_TEMPLATES_i2s_def placeholder_free_def)
  apply (elim disjE conjE)
  apply (simp_all add: contains_sep)
  done

lemma input_s2f_free:
  assumes "t \<in> set PROMPT_TEMPLATES_s2f" and "placeholder_free v"
  shows "placeholder_free (str_replace ''<INPUT>'' v (tpl_input t))"
  using assms
  apply (simp add: PROMPT_TEMPLATES_s2f_def placeholder_free_def)
  apply (elim disjE conjE)
  apply (simp_all add: contains_sep)
  done

lemma output_s2f_free:
  assumes "t \<in> set PROMPT_TEMPLATES_s2f" and "placeholder_free v"
  shows "placeholder_free (str_replace ''<OUTPUT>'' v (tpl_output t))"
  using assms
  apply (simp add: PROMPT_TEMPLATES_s2f_def placeholder_free_def)
  apply (elim disjE conjE)
  apply (simp_all add: contains_sep)
  done

lemma system_prompt_free: "placeholder_free SYSTEM_PROMPT"
  by (simp add: placeholder_free_def SYSTEM_PROMPT_def)

lemma molecule_token_free: "placeholder_free MOLECULE_TOKEN"
  by (simp add: placeholder_free_def MOLECULE_TOKEN_def)

lemma token_in_prompt:
  assumes "t \<in> set PROMPT_TEMPLATES_s2f"
  shows "contains MOLECULE_TOKEN (str_replace ''<INPUT>'' MOLECULE_TOKEN (tpl_input t))"
  using assms
  apply (simp add: PROMPT_TEMPLATES_s2f_def)
  apply (elim disjE)
  apply (simp_all add: MOLECULE_TOKEN_def)
  done

section \<open>The shape of a record yielded\<close>

lemma body_i2s_record:
  assumes "fst (gen_body_i2s dataset format token split i item g) = Inr r"
  shows "\<exists>t\<in>set PROMPT_TEMPLATES_i2s. \<exists>a.
           raw_input item = Some a
           \<and> (if split = Test
              then messages r =
                     [\<lparr>role = ROLE_SYSTEM, content = SYSTEM_PROMPT\<rparr>,
                      \<lparr>role = ROLE_USER, content = str_replace ''<INPUT>'' a (tpl_input t)\<rparr>]
              else \<exists>b. raw_output item = Some b
                     \<and> messages r =
                         [\<lparr>role = ROLE_SYSTEM, content = SYSTEM_PROMPT\<rparr>,
                          \<lparr>role = ROLE_USER, content = str_replace ''<INPUT>'' a (tpl_input t)\<rparr>,
                          \<lparr>role = ROLE_ASSISTANT,
                           content = str_replace ''<OUTPUT>'' b (tpl_output t)\<rparr>])"
proof -
  let ?t = "PROMPT_TEMPLATES_i2s ! (g 0 mod 13)"
  have "?t \<in> set PROMPT_TEMPLATES_i2s" by (rule chosen_i2s_mem)
  moreover from assms have "\<exists>a.
           raw_input item = Some a
           \<and> (if split = Test
              then messages r =
                     [\<lparr>role = ROLE_SYSTEM, content = SYSTEM_PROMPT\<rparr>,
                      \<lparr>role = ROLE_USER, content = str_replace ''<INPUT>'' a (tpl_input ?t)\<rparr>]
              else \<exists>b. raw_output item = Some b
                     \<and> messages r =
                         [\<lparr>role = ROLE_SYSTEM, content = SYSTEM_PROMPT\<rparr>,
                          \<lparr>role = ROLE_USER, content = str_replace ''<INPUT>'' a (tpl_input ?t)\<rparr>,
                          \<lparr>role = ROLE_ASSISTANT,
                           content = str_replace ''<OUTPUT>'' b (tpl_output ?t)\<rparr>])"
    by (auto simp: body_i2s_cases train_i2s_cases test_i2s_cases few_shot_content_def
             split: option.splits if_splits)
  ultimately show ?thesis by blast
qed

lemma body_s2f_record:
  assumes "fst (gen_body_s2f canon encoder dataset format token split i item g) = Inr r"
  shows "\<exists>t\<in>set PROMPT_TEMPLATES_s2f. \<exists>sfs smi mol.
           process_input canon encoder (raw_input item) format token = Inr (sfs, smi, mol)
           \<and> molecules r = \<lparr>selfies = sfs, smiles = smi\<rparr>
           \<and> (if split = Test
              then messages r =
                     [\<lparr>role = ROLE_SYSTEM, content = SYSTEM_PROMPT\<rparr>,
                      \<lparr>role = ROLE_USER, content = str_replace ''<INPUT>'' mol (tpl_input t)\<rparr>]
              else \<exists>b. raw_output item = Some b
                     \<and> messages r =
                         [\<lparr>role = ROLE_SYSTEM, content = SYSTEM_PROMPT\<rparr>,
                          \<lparr>role = ROLE_USER, content = str_replace ''<INPUT>'' mol (tpl_input t)\<rparr>,
                          \<lparr>role = ROLE_ASSISTANT,
                           content = str_replace ''<OUTPUT>'' b (tpl_output t)\<rparr>])"
proof -
  let ?t = "PROMPT_TEMPLATES_s2f ! (g 0 mod 13)"
  have "?t \<in> set PROMPT_TEMPLATES_s2f" by (rule chosen_s2f_mem)
  moreover from assms have "\<exists>sfs smi mol.
           process_input canon encoder (raw_input item) format token = Inr (sfs, smi, mol)
           \<and> molecules r = \<lparr>selfies = sfs, smiles = smi\<rparr>
           \<and> (if split = Test
              then messages r =
                     [\<lparr>role = ROLE_SYSTEM, content = SYSTEM_PROMPT\<rparr>,
                      \<lparr>role = ROLE_USER, content = str_replace ''<INPUT>'' mol (tpl_input ?t)\<rparr>]
              else \<exists>b. raw_output item = Some b
                     \<and> messages r =
                         [\<lparr>role = ROLE_SYSTEM, content = SYSTEM_PROMPT\<rparr>,
                          \<lparr>role = ROLE_USER, content = str_replace ''<INPUT>'' mol (tpl_input ?t)\<rparr>,
                          \<lparr>role = ROLE_ASSISTANT,
                           content = str_replace ''<OUTPUT>'' b (tpl_output ?t)\<rparr>])"
    by (auto simp: body_s2f_cases train_s2f_cases test_s2f_cases few_shot_content_def
             split: option.splits if_splits sum.splits prod.splits)
  ultimately show ?thesis by blast
qed

lemma process_input_molecule:
  assumes "process_input canon encoder inp format token = Inr (sfs, smi, mol)"
  shows "mol = (if token then MOLECULE_TOKEN else if format = ''smiles'' then smi else sfs)"
  using assms by (auto simp: process_input_def split: sum.splits if_splits)

lemma gen_i2s_flags_unused:
  "gen_i2s dataset format token split g = gen_i2s dataset format' token' split g"
proof -
  have "gen_body_i2s dataset format token split = gen_body_i2s dataset format' token' split"
    by (intro ext) (simp add: body_i2s_cases train_i2s_cases test_i2s_cases)
  then show ?thesis by (simp add: gen_i2s_def)
qed

lemma ex_gen_placeholder:
  "fst (gen_i2s example_dataset_placeholder format token Train rng_zero) =
     [\<lparr>conv_id = 0, molecules = \<lparr>selfies = [], smiles = []\<rparr>, ground_truth = Some ''<OUTPUT>'',
       messages =
         [\<lparr>role = ROLE_SYSTEM, content = SYSTEM_PROMPT\<rparr>,
          \<lparr>role = ROLE_USER,
           content = ''<INPUT> is the IUPAC name of a molecule. Please give its SMILES representation.''\<rparr>,
          \<lparr>role = ROLE_ASSISTANT, content = ''<OUTPUT>''\<rparr>]\<rparr>]"
  by (simp add: gen_i2s_def example_dataset_placeholder_def body_i2s_cases train_i2s_cases
        PROMPT_TEMPLATES_i2s_def)

lemma few_shots_none: "generate_few_shot_examples rows None g = (Inr None, g)"
  by (simp add: generate_few_shot_examples_def)

lemma few_shots_empty_pool:
  "n \<noteq> 0 \<Longrightarrow> fst (generate_few_shot_examples [] (Some n) g) = Inl ValueError"
  by (auto simp: generate_few_shot_examples_def sorted_by_random_key_def random_sample_def)

section \<open>Facts about the multi-image builder\<close>

lemma map_err_length: "map_err f xs = Inr ys \<Longrightarrow> length ys = length xs"
  by (induction xs arbitrary: ys) (auto split: sum.splits)

lemma map_err_nth:
  "map_err f xs = Inr ys \<Longrightarrow> j < length xs \<Longrightarrow> f (xs ! j) = Inr (ys ! j)"
proof (induction xs arbitrary: ys j)
  case Nil
  then show ?case by simp
next
  case (Cons x xs)
  then show ?case by (cases j) (auto split: sum.splits)
qed

lemma questions_nonempty: "QUESTIONS \<noteq> []"
  by (simp add: QUESTIONS_def)

lemma build_convo_Inr:
  assumes "fst (build_convo client pretrain_examples g) = Inr ex"
  shows "\<exists>create captions prompt resp q a.
           client = Inr create
           \<and> map_err (\<lambda>e. case list_item (pe_messages e) 1 of
                               Inl err \<Rightarrow> Inl err | Inr m \<Rightarrow> Inr (content m)) pretrain_examples
               = Inr captions
           \<and> map_err (\<lambda>e. list_item (pe_images e) 0) pretrain_examples = Inr (mi_images ex)
           \<and> create prompt = Inr resp
           \<and> resp ''question'' = Some q \<and> resp ''answer'' = Some a
           \<and> (mi_messages ex =
                 [\<lparr>role = ROLE_USER,
                   content = str_times ''<image>'' (length captions) @ '' '' @ q\<rparr>,
                  \<lparr>role = ROLE_ASSISTANT, content = a\<rparr>]
              \<or> mi_messages ex =
                 [\<lparr>role = ROLE_USER,
                   content = q @ '' '' @ str_times ''<image>'' (length captions)\<rparr>,
                  \<lparr>role = ROLE_ASSISTANT, content = a\<rparr>])"
proof -
  from assms obtain create where c: "client = Inr create"
    by (cases client) (simp_all add: build_convo_def)
  from assms c obtain captions where
    caps: "map_err (\<lambda>e. case list_item (pe_messages e) 1 of
                               Inl err \<Rightarrow> Inl err | Inr m \<Rightarrow> Inr (content m)) pretrain_examples
               = Inr captions"
    by (cases "map_err (\<lambda>e. case list_item (pe_messages e) 1 of
                               Inl err \<Rightarrow> Inl err | Inr m \<Rightarrow> Inr (content m)) pretrain_examples")
       (simp_all add: build_convo_def)
  from assms c caps obtain paths where
    paths: "map_err (\<lambda>e. list_item (pe_images e) 0) pretrain_examples = Inr paths"
    by (cases "map_err (\<lambda>e. list_item (pe_images e) 0) pretrain_examples")
       (simp_all add: build_convo_def)
  let ?question = "QUESTIONS ! (g 0 mod length QUESTIONS)"
  let ?prompt = "strip (PROMPT_format (join newline (map caption_line (enumerate 0 captions)))
                   ?question)"
  have q: "random_choice QUESTIONS g = (Inr ?question, rng_tail g)"
    using questions_nonempty by (simp add: random_choice_def)
  have rest: "build_convo client pretrain_examples g = (case create ?prompt of
        Inl e \<Rightarrow> (Inl e, rng_tail g)
      | Inr resp \<Rightarrow>
     (case dict_item resp ''question'' of
        Inl e \<Rightarrow> (Inl e, rng_tail g)
      | Inr q \<Rightarrow>
     (case dict_item resp ''answer'' of
        Inl e \<Rightarrow> (Inl e, rng_tail g)
      | Inr a \<Rightarrow>
     (case random_choice [True, False] (rng_tail g) of
        (Inl e, g2) \<Rightarrow> (Inl e, g2)
      | (Inr front, g2) \<Rightarrow>
     (let q' = (if front then str_times ''<image>'' (length captions) @ '' '' @ q
                else q @ '' '' @ str_times ''<image>'' (length captions))
      in (Inr \<lparr>mi_images = paths,
                mi_messages =
                  [\<lparr>role = ROLE_USER, content = q'\<rparr>,
                   \<lparr>role = ROLE_ASSISTANT, content = a\<rparr>]\<rparr>,
          g2))))))"
    unfolding build_convo_def c caps paths q Let_def by simp
  note run = assms [unfolded rest]
  from run obtain resp where resp: "create ?prompt = Inr resp"
    by (cases "create ?prompt") auto
  from run resp obtain qq where qq: "resp ''question'' = Some qq"
    by (cases "resp ''question''") (auto simp: dict_item_def)
  from run resp qq obtain a where a: "resp ''answer'' = Some a"
    by (cases "resp ''answer''") (auto simp: dict_item_def)
  from run resp qq a
  have "mi_images ex = paths
        \<and> (mi_messages ex =
                 [\<lparr>role = ROLE_USER,
                   content = str_times ''<image>'' (length captions) @ '' '' @ qq\<rparr>,
                  \<lparr>role = ROLE_ASSISTANT, content = a\<rparr>]
              \<or> mi_messages ex =
                 [\<lparr>role = ROLE_USER,
                   content = qq @ '' '' @ str_times ''<image>'' (length captions)\<rparr>,
                  \<lparr>role = ROLE_ASSISTANT, content = a\<rparr>])"
    by (auto simp: dict_item_def random_choice_def Let_def split: if_splits)
  with c caps paths resp qq a show ?thesis by blast
qed

lemma list_item_0: "list_item xs 0 = Inr y \<Longrightarrow> xs \<noteq> [] \<and> y = hd xs"
  by (cases xs) (simp_all add: list_item_def)

lemma occurrences_none: "\<not> contains sub s \<Longrightarrow> occurrences sub s = 0"
  by (induction s) auto

lemma occurrences_image_step:
  "occurrences ''<image>'' (''<image>'' @ rest) = Suc (occurrences ''<image>'' rest)"
  by simp

lemma occurrences_image_times: "occurrences ''<image>'' (str_times ''<image>'' k) = k"
proof (induction k)
  case 0
  then show ?case by (simp add: str_times_def)
next
  case (Suc k)
  have "str_times ''<image>'' (Suc k) = ''<image>'' @ str_times ''<image>'' k"
    by (simp add: str_times_def)
  with Suc occurrences_image_step [of "str_times ''<image>'' k"] show ?case by simp
qed

lemma occurrences_front:
  assumes "\<not> contains ''<image>'' q"
  shows "occurrences ''<image>'' (str_times ''<image>'' k @ '' '' @ q) = k"
  using occurrences_sep [of "CHR '' ''" "''<image>''" "str_times ''<image>'' k" q]
    occurrences_none [OF assms] occurrences_image_times [of k]
  by simp

lemma occurrences_back:
  assumes "\<not> contains ''<image>'' q"
  shows "occurrences ''<image>'' (q @ '' '' @ str_times ''<image>'' k) = k"
  using occurrences_sep [of "CHR '' ''" "''<image>''" q "str_times ''<image>'' k"]
    occurrences_none [OF assms] occurrences_image_times [of k]
  by simp

lemma ex_build_convo:
  "fst (build_convo example_client example_pretrain rng_zero)
     = Inr \<lparr>mi_images = [''boats.jpg'', ''pier.jpg''],
            mi_messages =
              [\<lparr>role = ROLE_USER, content = ''<image><image> What links the two images?''\<rparr>,
               \<lparr>role = ROLE_ASSISTANT, content = ''Both show a harbour.''\<rparr>]\<rparr>"
  by (simp add: build_convo_def example_client_def example_pretrain_def list_item_def
        random_choice_def QUESTIONS_def dict_item_def str_times_def Let_def)

section \<open>Turns of a record and its ground truth\<close>

text \<open>
  Claim C4. In both molecule pipelines a record yielded for the train or the dev split has
  exactly the three turns system, user, assistant, in this order, and a record yielded for
  the test split has exactly the two turns system, user. In every case the record's
  \<open>ground_truth\<close> is the \<open>output\<close> field of the row it was built from, which is the row
  at the index the record carries as its id.
\<close>

theorem message_turns_and_ground_truth:
  "(\<forall>r\<in>set (fst (gen_i2s dataset format token split g)).
      map role (messages r)
        = (if split = Test then [ROLE_SYSTEM, ROLE_USER]
           else [ROLE_SYSTEM, ROLE_USER, ROLE_ASSISTANT])
      \<and> conv_id r < length (dataset split)
      \<and> ground_truth r = raw_output (dataset split ! conv_id r))
   \<and> (\<forall>r\<in>set (fst (gen_s2f canon encoder dataset format token split g)).
      map role (messages r)
        = (if split = Test then [ROLE_SYSTEM, ROLE_USER]
           else [ROLE_SYSTEM, ROLE_USER, ROLE_ASSISTANT])
      \<and> conv_id r < length (dataset split)
      \<and> ground_truth r = raw_output (dataset split ! conv_id r))"
proof (rule conjI; rule ballI)
  fix r assume "r \<in> set (fst (gen_i2s dataset format token split g))"
  from gen_i2s_source [OF this] obtain g' where
    "conv_id r < length (dataset split)"
    "fst (gen_body_i2s dataset format token split (conv_id r)
            (dataset split ! conv_id r) g') = Inr r" by blast
  then show "map role (messages r)
        = (if split = Test then [ROLE_SYSTEM, ROLE_USER]
           else [ROLE_SYSTEM, ROLE_USER, ROLE_ASSISTANT])
      \<and> conv_id r < length (dataset split)
      \<and> ground_truth r = raw_output (dataset split ! conv_id r)"
    using conv_roles_i2s by blast
next
  fix r assume "r \<in> set (fst (gen_s2f canon encoder dataset format token split g))"
  from gen_s2f_source [OF this] obtain g' where
    "conv_id r < length (dataset split)"
    "fst (gen_body_s2f canon encoder dataset format token split (conv_id r)
            (dataset split ! conv_id r) g') = Inr r" by blast
  then show "map role (messages r)
        = (if split = Test then [ROLE_SYSTEM, ROLE_USER]
           else [ROLE_SYSTEM, ROLE_USER, ROLE_ASSISTANT])
      \<and> conv_id r < length (dataset split)
      \<and> ground_truth r = raw_output (dataset split ! conv_id r)"
    using conv_roles_s2f by blast
qed

theorem message_turns_and_ground_truth_witness:
  "hd (fst (gen_i2s example_dataset_i2s ''smiles'' True Train rng_zero))
      \<in> set (fst (gen_i2s example_dataset_i2s ''smiles'' True Train rng_zero))
   \<and> map role (messages (hd (fst (gen_i2s example_dataset_i2s ''smiles'' True Train rng_zero))))
       = [ROLE_SYSTEM, ROLE_USER, ROLE_ASSISTANT]
   \<and> ground_truth (hd (fst (gen_i2s example_dataset_i2s ''smiles'' True Train rng_zero)))
       = raw_output (example_dataset_i2s Train ! 0)
   \<and> last (fst (gen_s2f example_canon example_encoder example_dataset_s2f ''smiles'' True Test
                  rng_zero))
      \<in> set (fst (gen_s2f example_canon example_encoder example_dataset_s2f ''smiles'' True Test
                    rng_zero))
   \<and> map role (messages (last (fst (gen_s2f example_canon example_encoder example_dataset_s2f
                                      ''smiles'' True Test rng_zero))))
       = [ROLE_SYSTEM, ROLE_USER]
   \<and> ground_truth (last (fst (gen_s2f example_canon example_encoder example_dataset_s2f
                                 ''smiles'' True Test rng_zero)))
       = raw_output (example_dataset_s2f Test ! 2)"
  using message_turns_and_ground_truth
    [of example_dataset_i2s "''smiles''" True Train rng_zero example_canon example_encoder]
    message_turns_and_ground_truth
    [of example_dataset_s2f "''smiles''" True Test rng_zero example_canon example_encoder]
  by (simp add: ex_gen_i2s_train ex_gen_s2f_test)

section \<open>Rows whose assembly raises\<close>

text \<open>
  Claim C5. In both molecule pipelines, if the assembly of row \<open>i\<close> of a split raises
  (whatever the state of the random generator, on which failure does not depend), no record
  with id \<open>i\<close> is yielded, the split yields at most \<open>n - 1\<close> records for \<open>n\<close> rows, and the
  loop goes on: every row whose assembly does not raise is yielded, those after \<open>i\<close>
  included.
\<close>

theorem failed_record_is_skipped:
  "(i < length (dataset split)
      \<and> fst (gen_body_i2s dataset format token split i (dataset split ! i) g0) = Inl e
    \<longrightarrow> i \<notin> conv_id ` set (fst (gen_i2s dataset format token split g))
        \<and> length (fst (gen_i2s dataset format token split g)) \<le> length (dataset split) - 1
        \<and> (\<forall>j r. j < length (dataset split)
                 \<and> fst (gen_body_i2s dataset format token split j (dataset split ! j) g0) = Inr r
               \<longrightarrow> j \<in> conv_id ` set (fst (gen_i2s dataset format token split g))))
   \<and> (i < length (dataset split)
      \<and> fst (gen_body_s2f canon encoder dataset format token split i (dataset split ! i) g0)
          = Inl e
    \<longrightarrow> i \<notin> conv_id ` set (fst (gen_s2f canon encoder dataset format token split g))
        \<and> length (fst (gen_s2f canon encoder dataset format token split g))
            \<le> length (dataset split) - 1
        \<and> (\<forall>j r. j < length (dataset split)
                 \<and> fst (gen_body_s2f canon encoder dataset format token split j
                          (dataset split ! j) g0) = Inr r
               \<longrightarrow> j \<in> conv_id ` set (fst (gen_s2f canon encoder dataset format token split g))))"
  using gen_i2s_skip [of i dataset split format token g0 e g]
        gen_s2f_skip [of i dataset split canon encoder format token g0 e g]
        gen_i2s_continue [of _ dataset split format token g0 _ g]
        gen_s2f_continue [of _ dataset split canon encoder format token g0 _ g]
  by blast


theorem failed_record_is_skipped_witness:
  "fst (gen_body_i2s example_dataset_i2s ''smiles'' True Train 1
          (example_dataset_i2s Train ! 1) rng_zero) = Inl TypeError
   \<and> 1 \<notin> conv_id ` set (fst (gen_i2s example_dataset_i2s ''smiles'' True Train rng_zero))
   \<and> length (fst (gen_i2s example_dataset_i2s ''smiles'' True Train rng_zero)) \<le> 2
   \<and> 2 \<in> conv_id ` set (fst (gen_i2s example_dataset_i2s ''smiles'' True Train rng_zero))
   \<and> fst (gen_body_s2f example_canon example_encoder example_dataset_s2f ''smiles'' True Train 1
          (example_dataset_s2f Train ! 1) rng_zero) = Inl CanonicalizationError
   \<and> 1 \<notin> conv_id ` set (fst (gen_s2f example_canon example_encoder example_dataset_s2f
                                ''smiles'' True Train rng_zero))
   \<and> length (fst (gen_s2f example_canon example_encoder example_dataset_s2f
                     ''smiles'' True Train rng_zero)) \<le> 2
   \<and> 2 \<in> conv_id ` set (fst (gen_s2f example_canon example_encoder example_dataset_s2f
                                ''smiles'' True Train rng_zero))"
proof -
  have a: "fst (gen_body_i2s example_dataset_i2s ''smiles'' True Train 1
                 (example_dataset_i2s Train ! 1) rng_zero) = Inl TypeError"
    by (simp add: body_i2s_cases train_i2s_cases example_dataset_i2s_def)
  have a2: "\<exists>r. fst (gen_body_i2s example_dataset_i2s ''smiles'' True Train 2
                 (example_dataset_i2s Train ! 2) rng_zero) = Inr r"
    by (simp add: body_i2s_cases train_i2s_cases example_dataset_i2s_def)
  have b: "fst (gen_body_s2f example_canon example_encoder example_dataset_s2f ''smiles'' True
                 Train 1 (example_dataset_s2f Train ! 1) rng_zero) = Inl CanonicalizationError"
    by (simp add: body_s2f_cases train_s2f_cases example_dataset_s2f_def process_input_def
          example_canon_def)
  have b2: "\<exists>r. fst (gen_body_s2f example_canon example_encoder example_dataset_s2f ''smiles''
                 True Train 2 (example_dataset_s2f Train ! 2) rng_zero) = Inr r"
    by (simp add: body_s2f_cases train_s2f_cases example_dataset_s2f_def process_input_def
          example_canon_def example_encoder_def)
  have n: "1 < length (example_dataset_i2s Train)" "2 < length (example_dataset_i2s Train)"
    "1 < length (example_dataset_s2f Train)" "2 < length (example_dataset_s2f Train)"
    "length (example_dataset_i2s Train) - 1 = 2" "length (example_dataset_s2f Train) - 1 = 2"
    by (simp_all add: example_dataset_i2s_def example_dataset_s2f_def)
  from failed_record_is_skipped
    [of 1 example_dataset_i2s Train "''smiles''" True rng_zero TypeError rng_zero
        example_canon example_encoder]
    failed_record_is_skipped
    [of 1 example_dataset_s2f Train "''smiles''" True rng_zero CanonicalizationError rng_zero
        example_canon example_encoder]
    a a2 b b2 n
  show ?thesis by metis
qed


section \<open>Mode selection of \<open>process_input\<close>\<close>

text \<open>
  Claim C7. When canonicalization and SELFIES encoding of the input succeed,
  \<open>process_input\<close> raises exactly when the token flag is off and the format is neither
  \<open>smiles\<close> nor \<open>selfies\<close>. With the flag on the molecule is the opaque token, with the
  flag off and format \<open>smiles\<close> it is the canonical SMILES, with the flag off and format
  \<open>selfies\<close> it is the SELFIES string.
\<close>

theorem process_input_mode_selection:
  assumes "canon inp = Inr smi" and "encoder smi = Inr sfs"
  shows "((\<exists>e. process_input canon encoder inp format token = Inl e)
            \<longleftrightarrow> (\<not> token \<and> format \<noteq> ''smiles'' \<and> format \<noteq> ''selfies''))
       \<and> (token \<longrightarrow>
            process_input canon encoder inp format token = Inr (sfs, smi, MOLECULE_TOKEN))
       \<and> (\<not> token \<and> format = ''smiles'' \<longrightarrow>
            process_input canon encoder inp format token = Inr (sfs, smi, smi))
       \<and> (\<not> token \<and> format = ''selfies'' \<longrightarrow>
            process_input canon encoder inp format token = Inr (sfs, smi, sfs))"
  using assms by (simp add: process_input_def)

theorem process_input_mode_selection_witness:
  "example_canon (Some ''OCC'') = Inr ''CCO''
   \<and> example_encoder ''CCO'' = Inr ''[C][C][O]''
   \<and> process_input example_canon example_encoder (Some ''OCC'') ''inchi'' False
       = Inl ValueError
   \<and> process_input example_canon example_encoder (Some ''OCC'') ''inchi'' True
       = Inr (''[C][C][O]'', ''CCO'', MOLECULE_TOKEN)
   \<and> process_input example_canon example_encoder (Some ''OCC'') ''smiles'' False
       = Inr (''[C][C][O]'', ''CCO'', ''CCO'')
   \<and> process_input example_canon example_encoder (Some ''OCC'') ''selfies'' False
       = Inr (''[C][C][O]'', ''CCO'', ''[C][C][O]'')"
proof -
  have c: "example_canon (Some ''OCC'') = Inr ''CCO''"
    by (simp add: example_canon_def)
  have e: "example_encoder ''CCO'' = Inr ''[C][C][O]''"
    by (simp add: example_encoder_def)
  note sel = process_input_mode_selection
    [of example_canon "Some ''OCC''" "''CCO''" example_encoder "''[C][C][O]''", OF c e]
  from sel [of "''inchi''" False]
  obtain err where "process_input example_canon example_encoder (Some ''OCC'') ''inchi'' False
                      = Inl err" by auto
  then have "process_input example_canon example_encoder (Some ''OCC'') ''inchi'' False
               = Inl ValueError"
    by (simp add: process_input_def c e)
  with c e sel [of "''inchi''" True] sel [of "''smiles''" False] sel [of "''selfies''" False]
  show ?thesis by simp
qed

section \<open>Record ids\<close>

text \<open>
  Claim C9. In both molecule pipelines the ids of the records yielded are the zero-based
  indices that \<open>enumerate\<close> gave the rows of the input split, kept for exactly the rows
  whose assembly does not raise: a dropped row leaves a gap and the ids after it are not
  renumbered. Every record yielded was assembled from the row at its id.
\<close>

theorem record_id_is_source_row_index:
  "map conv_id (fst (gen_i2s dataset format token split g))
     = map fst (filter (\<lambda>p. \<not> isl (fst (gen_body_i2s dataset format token split
                                          (fst p) (snd p) g0)))
                  (enumerate 0 (dataset split)))
   \<and> (\<forall>r\<in>set (fst (gen_i2s dataset format token split g)).
         conv_id r < length (dataset split)
         \<and> (\<exists>g'. fst (gen_body_i2s dataset format token split (conv_id r)
                        (dataset split ! conv_id r) g') = Inr r))
   \<and> map conv_id (fst (gen_s2f canon encoder dataset format token split g))
     = map fst (filter (\<lambda>p. \<not> isl (fst (gen_body_s2f canon encoder dataset format token split
                                          (fst p) (snd p) g0)))
                  (enumerate 0 (dataset split)))
   \<and> (\<forall>r\<in>set (fst (gen_s2f canon encoder dataset format token split g)).
         conv_id r < length (dataset split)
         \<and> (\<exists>g'. fst (gen_body_s2f canon encoder dataset format token split (conv_id r)
                        (dataset split ! conv_id r) g') = Inr r))"
  by (simp add: gen_i2s_ids gen_s2f_ids body_i2s_isl body_s2f_isl gen_i2s_source gen_s2f_source)



theorem record_id_is_source_row_index_witness:
  "map conv_id (fst (gen_i2s example_dataset_i2s ''smiles'' True Train rng_zero)) = [0, 2]
   \<and> map conv_id (fst (gen_s2f example_canon example_encoder example_dataset_s2f
                          ''smiles'' True Train rng_zero)) = [0, 2]
   \<and> last (fst (gen_i2s example_dataset_i2s ''smiles'' True Train rng_zero))
        \<in> set (fst (gen_i2s example_dataset_i2s ''smiles'' True Train rng_zero))
   \<and> conv_id (last (fst (gen_i2s example_dataset_i2s ''smiles'' True Train rng_zero))) = 2
   \<and> last (fst (gen_s2f example_canon example_encoder example_dataset_s2f
                   ''smiles'' True Train rng_zero))
        \<in> set (fst (gen_s2f example_canon example_encoder example_dataset_s2f
                      ''smiles'' True Train rng_zero))
   \<and> conv_id (last (fst (gen_s2f example_canon example_encoder example_dataset_s2f
                            ''smiles'' True Train rng_zero))) = 2"
  using record_id_is_source_row_index
    [of example_dataset_i2s "''smiles''" True Train rng_zero rng_zero
        example_canon example_encoder]
    record_id_is_source_row_index
    [of example_dataset_s2f "''smiles''" True Train rng_zero rng_zero
        example_canon example_encoder]
  by (simp add: ex_gen_i2s_train ex_gen_s2f_train)

section \<open>The prompt in token mode\<close>

text \<open>
  Claim C1, as the scripts have it. In the SMILES-to-formula script, every record yielded
  with the token flag set has as its user prompt one of the catalog's input templates with
  \<open><INPUT>\<close> replaced by the opaque token: the prompt holds the token, and is the same
  whatever the molecule's SMILES or SELFIES text is. The name-to-SMILES script takes the
  flag and the format and uses neither: its user prompt is the template with the row's raw
  input text in the slot.

  The counterexample after it is the name-to-SMILES script run with the flag set, on a row
  whose input is \<open>ethanol\<close>: the user prompt holds the raw text and not the token.
\<close>

theorem token_mode_prompt:
  "(\<forall>r\<in>set (fst (gen_s2f canon encoder dataset format True split g)).
      \<exists>t\<in>set PROMPT_TEMPLATES_s2f.
        content (messages r ! 1) = str_replace ''<INPUT>'' MOLECULE_TOKEN (tpl_input t)
        \<and> contains MOLECULE_TOKEN (content (messages r ! 1)))
   \<and> gen_i2s dataset format token split g = gen_i2s dataset format' token' split g
   \<and> (\<forall>r\<in>set (fst (gen_i2s dataset format token split g)).
      \<exists>t\<in>set PROMPT_TEMPLATES_i2s. \<exists>a.
        raw_input (dataset split ! conv_id r) = Some a
        \<and> content (messages r ! 1) = str_replace ''<INPUT>'' a (tpl_input t))"
proof (intro conjI ballI)
  fix r assume "r \<in> set (fst (gen_s2f canon encoder dataset format True split g))"
  from gen_s2f_source [OF this] obtain g' where
    "fst (gen_body_s2f canon encoder dataset format True split (conv_id r)
            (dataset split ! conv_id r) g') = Inr r" by blast
  from body_s2f_record [OF this] obtain t sfs smi mol where
    t: "t \<in> set PROMPT_TEMPLATES_s2f"
    and p: "process_input canon encoder (raw_input (dataset split ! conv_id r)) format True
              = Inr (sfs, smi, mol)"
    and m: "content (messages r ! 1) = str_replace ''<INPUT>'' mol (tpl_input t)"
    by (auto split: if_splits)
  from process_input_molecule [OF p] have "mol = MOLECULE_TOKEN" by simp
  with m token_in_prompt [OF t] t
  show "\<exists>t\<in>set PROMPT_TEMPLATES_s2f.
        content (messages r ! 1) = str_replace ''<INPUT>'' MOLECULE_TOKEN (tpl_input t)
        \<and> contains MOLECULE_TOKEN (content (messages r ! 1))" by auto
next
  show "gen_i2s dataset format token split g = gen_i2s dataset format' token' split g"
    by (rule gen_i2s_flags_unused)
next
  fix r assume "r \<in> set (fst (gen_i2s dataset format token split g))"
  from gen_i2s_source [OF this] obtain g' where
    "fst (gen_body_i2s dataset format token split (conv_id r)
            (dataset split ! conv_id r) g') = Inr r" by blast
  from body_i2s_record [OF this]
  show "\<exists>t\<in>set PROMPT_TEMPLATES_i2s. \<exists>a.
        raw_input (dataset split ! conv_id r) = Some a
        \<and> content (messages r ! 1) = str_replace ''<INPUT>'' a (tpl_input t)"
    by (auto split: if_splits)
qed

theorem token_mode_prompt_witness:
  "hd (fst (gen_s2f example_canon example_encoder example_dataset_s2f ''selfies'' True Train
              rng_zero))
     \<in> set (fst (gen_s2f example_canon example_encoder example_dataset_s2f ''selfies'' True
                   Train rng_zero))
   \<and> contains MOLECULE_TOKEN
       (content (messages (hd (fst (gen_s2f example_canon example_encoder example_dataset_s2f
                                      ''selfies'' True Train rng_zero))) ! 1))
   \<and> hd (fst (gen_i2s example_dataset_i2s ''smiles'' True Train rng_zero))
     \<in> set (fst (gen_i2s example_dataset_i2s ''smiles'' True Train rng_zero))
   \<and> gen_i2s example_dataset_i2s ''smiles'' True Train rng_zero
       = gen_i2s example_dataset_i2s ''selfies'' False Train rng_zero"
proof -
  let ?X = "fst (gen_s2f example_canon example_encoder example_dataset_s2f ''selfies'' True Train
              rng_zero)"
  have "?X \<noteq> []"
    using gen_s2f_ids [of example_canon example_encoder example_dataset_s2f "''selfies''" True
                          Train rng_zero]
    by (auto simp: example_dataset_s2f_def process_input_def example_canon_def
          example_encoder_def)
  then have x: "hd ?X \<in> set ?X" by simp
  have y: "hd (fst (gen_i2s example_dataset_i2s ''smiles'' True Train rng_zero))
     \<in> set (fst (gen_i2s example_dataset_i2s ''smiles'' True Train rng_zero))"
    by (simp add: ex_gen_i2s_train)
  from token_mode_prompt
    [of example_canon example_encoder example_dataset_s2f "''selfies''" Train rng_zero
        True "''selfies''" False]
    token_mode_prompt
    [of example_canon example_encoder example_dataset_i2s "''smiles''" Train rng_zero
        True "''selfies''" False]
    x y
  show ?thesis by blast
qed

theorem token_flag_counterexample:
  "map content (messages (hd (fst (gen_i2s example_dataset_i2s ''smiles'' True Train rng_zero))))
     = [SYSTEM_PROMPT,
        ''ethanol is the IUPAC name of a molecule. Please give its SMILES representation.'',
        ''CCO'']
   \<and> \<not> contains MOLECULE_TOKEN
         ''ethanol is the IUPAC name of a molecule. Please give its SMILES representation.''"
  by (simp add: ex_gen_i2s_train MOLECULE_TOKEN_def)

section \<open>Placeholders in the rendered messages\<close>

text \<open>
  Claim C2, as the scripts have it. \<^verbatim>\<open>str.replace\<close> inserts the substituted text as
  it is, so the messages are free of \<open><INPUT>\<close> and \<open><OUTPUT>\<close> when the texts put
  into the slots are. In both molecule pipelines, for every record yielded for the train,
  dev or test split: if the texts substituted into the templates (in the name-to-SMILES
  script the row's input and output; in the SMILES-to-formula script the row's output and
  the molecule text, which is the token, the canonical SMILES or the SELFIES string of the
  record) contain neither \<open><INPUT>\<close> nor \<open><OUTPUT>\<close>, then no message content of the
  record contains \<open><INPUT>\<close> or \<open><OUTPUT>\<close>.

  The counterexample after it is a row whose input is the text \<open><INPUT>\<close> and whose
  output is the text \<open><OUTPUT>\<close>: both survive into the messages.
\<close>

theorem placeholders_resolved:
  "(\<forall>r\<in>set (fst (gen_i2s dataset format token split g)).
      (\<forall>s. raw_input (dataset split ! conv_id r) = Some s \<longrightarrow> placeholder_free s)
      \<and> (\<forall>s. raw_output (dataset split ! conv_id r) = Some s \<longrightarrow> placeholder_free s)
      \<longrightarrow> (\<forall>m\<in>set (messages r). placeholder_free (content m)))
   \<and> (\<forall>r\<in>set (fst (gen_s2f canon encoder dataset format token split g)).
      placeholder_free (smiles (molecules r))
      \<and> placeholder_free (selfies (molecules r))
      \<and> (\<forall>s. raw_output (dataset split ! conv_id r) = Some s \<longrightarrow> placeholder_free s)
      \<longrightarrow> (\<forall>m\<in>set (messages r). placeholder_free (content m)))"
proof (rule conjI; rule ballI; rule impI)
  fix r
  assume r: "r \<in> set (fst (gen_i2s dataset format token split g))"
    and free: "(\<forall>s. raw_input (dataset split ! conv_id r) = Some s \<longrightarrow> placeholder_free s)
      \<and> (\<forall>s. raw_output (dataset split ! conv_id r) = Some s \<longrightarrow> placeholder_free s)"
  from gen_i2s_source [OF r] obtain g' where
    "fst (gen_body_i2s dataset format token split (conv_id r)
            (dataset split ! conv_id r) g') = Inr r" by blast
  from body_i2s_record [OF this] obtain t a where
    t: "t \<in> set PROMPT_TEMPLATES_i2s"
    and a: "raw_input (dataset split ! conv_id r) = Some a"
    and m: "if split = Test
              then messages r =
                     [\<lparr>role = ROLE_SYSTEM, content = SYSTEM_PROMPT\<rparr>,
                      \<lparr>role = ROLE_USER, content = str_replace ''<INPUT>'' a (tpl_input t)\<rparr>]
              else \<exists>b. raw_output (dataset split ! conv_id r) = Some b
                     \<and> messages r =
                         [\<lparr>role = ROLE_SYSTEM, content = SYSTEM_PROMPT\<rparr>,
                          \<lparr>role = ROLE_USER, content = str_replace ''<INPUT>'' a (tpl_input t)\<rparr>,
                          \<lparr>role = ROLE_ASSISTANT,
                           content = str_replace ''<OUTPUT>'' b (tpl_output t)\<rparr>]"
    by blast
  from a free have "placeholder_free a" by simp
  then have u: "placeholder_free (str_replace ''<INPUT>'' a (tpl_input t))"
    by (rule input_i2s_free [OF t])
  show "\<forall>m\<in>set (messages r). placeholder_free (content m)"
  proof (cases "split = Test")
    case True
    with m u system_prompt_free show ?thesis by simp
  next
    case False
    with m obtain b where b: "raw_output (dataset split ! conv_id r) = Some b"
      and ms: "messages r =
                 [\<lparr>role = ROLE_SYSTEM, content = SYSTEM_PROMPT\<rparr>,
                  \<lparr>role = ROLE_USER, content = str_replace ''<INPUT>'' a (tpl_input t)\<rparr>,
                  \<lparr>role = ROLE_ASSISTANT,
                   content = str_replace ''<OUTPUT>'' b (tpl_output t)\<rparr>]" by auto
    from b free have "placeholder_free b" by simp
    then have "placeholder_free (str_replace ''<OUTPUT>'' b (tpl_output t))"
      by (rule output_i2s_free [OF t])
    with ms u system_prompt_free show ?thesis by simp
  qed
next
  fix r
  assume r: "r \<in> set (fst (gen_s2f canon encoder dataset format token split g))"
    and free: "placeholder_free (smiles (molecules r))
      \<and> placeholder_free (selfies (molecules r))
      \<and> (\<forall>s. raw_output (dataset split ! conv_id r) = Some s \<longrightarrow> placeholder_free s)"
  from gen_s2f_source [OF r] obtain g' where
    "fst (gen_body_s2f canon encoder dataset format token split (conv_id r)
            (dataset split ! conv_id r) g') = Inr r" by blast
  from body_s2f_record [OF this] obtain t sfs smi mol where
    t: "t \<in> set PROMPT_TEMPLATES_s2f"
    and p: "process_input canon encoder (raw_input (dataset split ! conv_id r)) format token
              = Inr (sfs, smi, mol)"
    and mols: "molecules r = \<lparr>selfies = sfs, smiles = smi\<rparr>"
    and m: "if split = Test
              then messages r =
                     [\<lparr>role = ROLE_SYSTEM, content = SYSTEM_PROMPT\<rparr>,
                      \<lparr>role = ROLE_USER, content = str_replace ''<INPUT>'' mol (tpl_input t)\<rparr>]
              else \<exists>b. raw_output (dataset split ! conv_id r) = Some b
                     \<and> messages r =
                         [\<lparr>role = ROLE_SYSTEM, content = SYSTEM_PROMPT\<rparr>,
                          \<lparr>role = ROLE_USER, content = str_replace ''<INPUT>'' mol (tpl_input t)\<rparr>,
                          \<lparr>role = ROLE_ASSISTANT,
                           content = str_replace ''<OUTPUT>'' b (tpl_output t)\<rparr>]"
    by blast
  from process_input_molecule [OF p] mols free molecule_token_free
  have "placeholder_free mol" by (auto split: if_splits)
  then have u: "placeholder_free (str_replace ''<INPUT>'' mol (tpl_input t))"
    by (rule input_s2f_free [OF t])
  show "\<forall>m\<in>set (messages r). placeholder_free (content m)"
  proof (cases "split = Test")
    case True
    with m u system_prompt_free show ?thesis by simp
  next
    case False
    with m obtain b where b: "raw_output (dataset split ! conv_id r) = Some b"
      and ms: "messages r =
                 [\<lparr>role = ROLE_SYSTEM, content = SYSTEM_PROMPT\<rparr>,
                  \<lparr>role = ROLE_USER, content = str_replace ''<INPUT>'' mol (tpl_input t)\<rparr>,
                  \<lparr>role = ROLE_ASSISTANT,
                   content = str_replace ''<OUTPUT>'' b (tpl_output t)\<rparr>]" by auto
    from b free have "placeholder_free b" by simp
    then have "placeholder_free (str_replace ''<OUTPUT>'' b (tpl_output t))"
      by (rule output_s2f_free [OF t])
    with ms u system_prompt_free show ?thesis by simp
  qed
qed

theorem placeholders_resolved_witness:
  "hd (fst (gen_i2s example_dataset_i2s ''smiles'' True Train rng_zero))
     \<in> set (fst (gen_i2s example_dataset_i2s ''smiles'' True Train rng_zero))
   \<and> raw_input (example_dataset_i2s Train ! 0) = Some ''ethanol''
   \<and> raw_output (example_dataset_i2s Train ! 0) = Some ''CCO''
   \<and> placeholder_free ''ethanol'' \<and> placeholder_free ''CCO''
   \<and> placeholder_free
       (content (messages (hd (fst (gen_i2s example_dataset_i2s ''smiles'' True Train
                                      rng_zero))) ! 1))
   \<and> placeholder_free
       (content (messages (hd (fst (gen_i2s example_dataset_i2s ''smiles'' True Train
                                      rng_zero))) ! 2))
   \<and> hd (fst (gen_s2f example_canon example_encoder example_dataset_s2f ''smiles'' True Train
                 rng_zero))
     \<in> set (fst (gen_s2f example_canon example_encoder example_dataset_s2f ''smiles'' True
                   Train rng_zero))
   \<and> placeholder_free ''[C][C][O]'' \<and> placeholder_free ''C2H6O''
   \<and> placeholder_free
       (content (messages (hd (fst (gen_s2f example_canon example_encoder example_dataset_s2f
                                      ''smiles'' True Train rng_zero))) ! 1))
   \<and> placeholder_free
       (content (messages (hd (fst (gen_s2f example_canon example_encoder example_dataset_s2f
                                      ''smiles'' True Train rng_zero))) ! 2))"
proof -
  have f: "placeholder_free ''ethanol''" "placeholder_free ''CCO''"
    "placeholder_free ''[C][C][O]''" "placeholder_free ''C2H6O''"
    "placeholder_free ''C''" "placeholder_free ''[C]''" "placeholder_free ''CH4''"
    by (simp_all add: placeholder_free_def)
  have d: "raw_input (example_dataset_i2s Train ! 0) = Some ''ethanol''"
    "raw_output (example_dataset_i2s Train ! 0) = Some ''CCO''"
    by (simp_all add: example_dataset_i2s_def)
  from placeholders_resolved
    [of example_dataset_i2s "''smiles''" True Train rng_zero example_canon example_encoder]
    placeholders_resolved
    [of example_dataset_s2f "''smiles''" True Train rng_zero example_canon example_encoder]
    f d
  show ?thesis
    by (simp add: ex_gen_i2s_train ex_gen_s2f_train example_dataset_i2s_def
          example_dataset_s2f_def)
qed

theorem placeholder_survives_counterexample:
  "map content
     (messages (hd (fst (gen_i2s example_dataset_placeholder ''smiles'' True Train rng_zero))))
     = [SYSTEM_PROMPT,
        ''<INPUT> is the IUPAC name of a molecule. Please give its SMILES representation.'',
        ''<OUTPUT>'']
   \<and> contains ''<INPUT>''
         ''<INPUT> is the IUPAC name of a molecule. Please give its SMILES representation.''
   \<and> contains ''<OUTPUT>'' ''<OUTPUT>''"
  by (simp add: ex_gen_placeholder)

section \<open>The ethanol example\<close>

text \<open>
  Claim C3. The row with input \<open>CCO\<close> and output \<open>C2H6O\<close>, assembled by the
  SMILES-to-formula script in format \<open>smiles\<close> with the token flag set, where \<open>CCO\<close> is
  already canonical and has a SELFIES encoding: for some template of the catalog the user
  message is the template's input with \<open><INPUT>\<close> replaced by the opaque token, the
  assistant message is the template's output with \<open><OUTPUT>\<close> replaced by \<open>C2H6O\<close>, the
  \<open>smiles\<close> field is \<open>CCO\<close> and the \<open>selfies\<close> field is the encoding of \<open>CCO\<close>.
\<close>

theorem ethanol_example:
  assumes "canon (Some ''CCO'') = Inr ''CCO''" and "encoder ''CCO'' = Inr sfs"
  shows "\<exists>t\<in>set PROMPT_TEMPLATES_s2f.
           fst (conversation_train_s2f canon encoder i (Some ''CCO'') (Some ''C2H6O'')
                  ''smiles'' True g)
             = Inr \<lparr>conv_id = i,
                    molecules = \<lparr>selfies = sfs, smiles = ''CCO''\<rparr>,
                    ground_truth = Some ''C2H6O'',
                    messages =
                      [\<lparr>role = ROLE_SYSTEM, content = SYSTEM_PROMPT\<rparr>,
                       \<lparr>role = ROLE_USER,
                        content = str_replace ''<INPUT>'' MOLECULE_TOKEN (tpl_input t)\<rparr>,
                       \<lparr>role = ROLE_ASSISTANT,
                        content = str_replace ''<OUTPUT>'' ''C2H6O'' (tpl_output t)\<rparr>]\<rparr>"
proof -
  from assms
  have "process_input canon encoder (Some ''CCO'') ''smiles'' True
          = Inr (sfs, ''CCO'', MOLECULE_TOKEN)"
    by (simp add: process_input_def)
  then have "fst (conversation_train_s2f canon encoder i (Some ''CCO'') (Some ''C2H6O'')
                  ''smiles'' True g)
             = Inr \<lparr>conv_id = i,
                    molecules = \<lparr>selfies = sfs, smiles = ''CCO''\<rparr>,
                    ground_truth = Some ''C2H6O'',
                    messages =
                      [\<lparr>role = ROLE_SYSTEM, content = SYSTEM_PROMPT\<rparr>,
                       \<lparr>role = ROLE_USER,
                        content = str_replace ''<INPUT>'' MOLECULE_TOKEN
                                    (tpl_input (PROMPT_TEMPLATES_s2f ! (g 0 mod 13)))\<rparr>,
                       \<lparr>role = ROLE_ASSISTANT,
                        content = str_replace ''<OUTPUT>'' ''C2H6O''
                                    (tpl_output (PROMPT_TEMPLATES_s2f ! (g 0 mod 13)))\<rparr>]\<rparr>"
    by (simp add: train_s2f_cases)
  with chosen_s2f_mem [of "g 0"] show ?thesis by blast
qed

theorem ethanol_example_witness:
  "example_canon (Some ''CCO'') = Inr ''CCO''
   \<and> example_encoder ''CCO'' = Inr ''[C][C][O]''
   \<and> fst (conversation_train_s2f example_canon example_encoder 0 (Some ''CCO'') (Some ''C2H6O'')
            ''smiles'' True rng_zero)
       = Inr \<lparr>conv_id = 0,
              molecules = \<lparr>selfies = ''[C][C][O]'', smiles = ''CCO''\<rparr>,
              ground_truth = Some ''C2H6O'',
              messages =
                [\<lparr>role = ROLE_SYSTEM, content = SYSTEM_PROMPT\<rparr>,
                 \<lparr>role = ROLE_USER,
                  content = ''<molecule_2d> is the representation of a molecule. What is its molecular formula?''\<rparr>,
                 \<lparr>role = ROLE_ASSISTANT, content = ''C2H6O''\<rparr>]\<rparr>"
proof -
  have c: "example_canon (Some ''CCO'') = Inr ''CCO''"
    by (simp add: example_canon_def)
  have e: "example_encoder ''CCO'' = Inr ''[C][C][O]''"
    by (simp add: example_encoder_def)
  from ethanol_example [of example_canon example_encoder "''[C][C][O]''" 0 rng_zero, OF c e]
  have "\<exists>r. fst (conversation_train_s2f example_canon example_encoder 0 (Some ''CCO'')
                       (Some ''C2H6O'') ''smiles'' True rng_zero) = Inr r" by auto
  then have "fst (conversation_train_s2f example_canon example_encoder 0 (Some ''CCO'')
                       (Some ''C2H6O'') ''smiles'' True rng_zero)
       = Inr \<lparr>conv_id = 0,
              molecules = \<lparr>selfies = ''[C][C][O]'', smiles = ''CCO''\<rparr>,
              ground_truth = Some ''C2H6O'',
              messages =
                [\<lparr>role = ROLE_SYSTEM, content = SYSTEM_PROMPT\<rparr>,
                 \<lparr>role = ROLE_USER,
                  content = ''<molecule_2d> is the representation of a molecule. What is its molecular formula?''\<rparr>,
                 \<lparr>role = ROLE_ASSISTANT, content = ''C2H6O''\<rparr>]\<rparr>"
    by (simp add: train_s2f_cases process_input_def c e PROMPT_TEMPLATES_s2f_def
          MOLECULE_TOKEN_def)
  with c e show ?thesis by simp
qed

section \<open>Test prompts without few-shot examples\<close>

text \<open>
  Claim C6, as the scripts have it. With a few-shot count of zero or \<open>None\<close>,
  \<open>generate_few_shot_examples\<close> returns \<open>None\<close> whatever the pool is, and draws nothing.
  A test conversation rendered with \<open>None\<close> or with the empty list of examples is the same
  record, and its user prompt is the catalog template with \<open><INPUT>\<close> substituted, with
  no preamble before it. With an empty pool and a count other than zero, sampling raises
  \<open>ValueError\<close> and no prompt is rendered.

  The counterexample after it is the empty pool with a count of five.
\<close>

theorem no_few_shot_block:
  "generate_few_shot_examples rows None g = (Inr None, g)
   \<and> generate_few_shot_examples rows (Some 0) g = (Inr None, g)
   \<and> (n \<noteq> 0 \<longrightarrow> fst (generate_few_shot_examples [] (Some n) g) = Inl ValueError)
   \<and> conversation_test_i2s i inp outp (Some []) format token g
       = conversation_test_i2s i inp outp None format token g
   \<and> conversation_test_s2f canon encoder i inp outp (Some []) format token g
       = conversation_test_s2f canon encoder i inp outp None format token g
   \<and> (\<forall>r. fst (conversation_test_i2s i inp outp None format token g) = Inr r
        \<longrightarrow> (\<exists>t\<in>set PROMPT_TEMPLATES_i2s. \<exists>a. inp = Some a
               \<and> content (messages r ! 1) = str_replace ''<INPUT>'' a (tpl_input t)))
   \<and> (\<forall>r. fst (conversation_test_s2f canon encoder i inp outp None format token g) = Inr r
        \<longrightarrow> (\<exists>t\<in>set PROMPT_TEMPLATES_s2f. \<exists>sfs smi mol.
               process_input canon encoder inp format token = Inr (sfs, smi, mol)
               \<and> content (messages r ! 1) = str_replace ''<INPUT>'' mol (tpl_input t)))"
proof (intro conjI allI impI)
  show "generate_few_shot_examples rows None g = (Inr None, g)" by (rule few_shots_none)
  show "generate_few_shot_examples rows (Some 0) g = (Inr None, g)" by (rule few_shots_zero)
  show "fst (generate_few_shot_examples [] (Some n) g) = Inl ValueError" if "n \<noteq> 0"
    using that by (rule few_shots_empty_pool)
  show "conversation_test_i2s i inp outp (Some []) format token g
       = conversation_test_i2s i inp outp None format token g"
    by (simp add: test_i2s_cases few_shot_content_def split: option.splits)
  show "conversation_test_s2f canon encoder i inp outp (Some []) format token g
       = conversation_test_s2f canon encoder i inp outp None format token g"
    by (simp add: test_s2f_cases few_shot_content_def split: sum.splits prod.splits)
next
  fix r assume "fst (conversation_test_i2s i inp outp None format token g) = Inr r"
  then have "\<exists>a. inp = Some a
               \<and> content (messages r ! 1)
                   = str_replace ''<INPUT>'' a (tpl_input (PROMPT_TEMPLATES_i2s ! (g 0 mod 13)))"
    by (auto simp: test_i2s_cases few_shot_content_def split: option.splits)
  with chosen_i2s_mem [of "g 0"]
  show "\<exists>t\<in>set PROMPT_TEMPLATES_i2s. \<exists>a. inp = Some a
               \<and> content (messages r ! 1) = str_replace ''<INPUT>'' a (tpl_input t)"
    by blast
next
  fix r
  assume "fst (conversation_test_s2f canon encoder i inp outp None format token g) = Inr r"
  then have "\<exists>sfs smi mol.
               process_input canon encoder inp format token = Inr (sfs, smi, mol)
               \<and> content (messages r ! 1)
                   = str_replace ''<INPUT>'' mol (tpl_input (PROMPT_TEMPLATES_s2f ! (g 0 mod 13)))"
    by (auto simp: test_s2f_cases few_shot_content_def split: sum.splits prod.splits)
  with chosen_s2f_mem [of "g 0"]
  show "\<exists>t\<in>set PROMPT_TEMPLATES_s2f. \<exists>sfs smi mol.
               process_input canon encoder inp format token = Inr (sfs, smi, mol)
               \<and> content (messages r ! 1) = str_replace ''<INPUT>'' mol (tpl_input t)"
    by blast
qed

theorem no_few_shot_block_witness:
  "(3::int) \<noteq> 0
   \<and> fst (generate_few_shot_examples [] (Some 3) rng_zero) = Inl ValueError
   \<and> fst (conversation_test_i2s 0 (Some ''ethanol'') (Some ''CCO'') (Some []) ''smiles'' True
            rng_zero)
       = Inr \<lparr>conv_id = 0, molecules = \<lparr>selfies = [], smiles = []\<rparr>,
              ground_truth = Some ''CCO'',
              messages =
                [\<lparr>role = ROLE_SYSTEM, content = SYSTEM_PROMPT\<rparr>,
                 \<lparr>role = ROLE_USER,
                  content = ''ethanol is the IUPAC name of a molecule. Please give its SMILES representation.''\<rparr>]\<rparr>
   \<and> fst (conversation_test_s2f example_canon example_encoder 0 (Some ''CCO'') (Some ''C2H6O'')
            (Some []) ''smiles'' False rng_zero)
       = Inr \<lparr>conv_id = 0, molecules = \<lparr>selfies = ''[C][C][O]'', smiles = ''CCO''\<rparr>,
              ground_truth = Some ''C2H6O'',
              messages =
                [\<lparr>role = ROLE_SYSTEM, content = SYSTEM_PROMPT\<rparr>,
                 \<lparr>role = ROLE_USER,
                  content = ''CCO is the representation of a molecule. What is its molecular formula?''\<rparr>]\<rparr>"
proof -
  have a: "fst (conversation_test_i2s 0 (Some ''ethanol'') (Some ''CCO'') None ''smiles'' True
            rng_zero)
       = Inr \<lparr>conv_id = 0, molecules = \<lparr>selfies = [], smiles = []\<rparr>,
              ground_truth = Some ''CCO'',
              messages =
                [\<lparr>role = ROLE_SYSTEM, content = SYSTEM_PROMPT\<rparr>,
                 \<lparr>role = ROLE_USER,
                  content = ''ethanol is the IUPAC name of a molecule. Please give its SMILES representation.''\<rparr>]\<rparr>"
    by (simp add: test_i2s_cases few_shot_content_def PROMPT_TEMPLATES_i2s_def)
  have b: "fst (conversation_test_s2f example_canon example_encoder 0 (Some ''CCO'')
             (Some ''C2H6O'') None ''smiles'' False rng_zero)
       = Inr \<lparr>conv_id = 0, molecules = \<lparr>selfies = ''[C][C][O]'', smiles = ''CCO''\<rparr>,
              ground_truth = Some ''C2H6O'',
              messages =
                [\<lparr>role = ROLE_SYSTEM, content = SYSTEM_PROMPT\<rparr>,
                 \<lparr>role = ROLE_USER,
                  content = ''CCO is the representation of a molecule. What is its molecular formula?''\<rparr>]\<rparr>"
    by (simp add: test_s2f_cases few_shot_content_def PROMPT_TEMPLATES_s2f_def
          process_input_def example_canon_def example_encoder_def)
  from no_few_shot_block
    [of "[]" rng_zero 3 0 "Some ''ethanol''" "Some ''CCO''" "''smiles''" True
        example_canon example_encoder]
    no_few_shot_block
    [of "[]" rng_zero 3 0 "Some ''CCO''" "Some ''C2H6O''" "''smiles''" False
        example_canon example_encoder]
    a b
  show ?thesis by simp
qed

theorem few_shot_sampling_counterexample:
  "fst (generate_few_shot_examples [] (Some 5) rng_zero) = Inl ValueError"
  by (simp add: generate_few_shot_examples_def sorted_by_random_key_def random_sample_def)

section \<open>The multi-image record\<close>

text \<open>
  Claim C8. When \<open>_build_convo\<close> succeeds on \<open>k\<close> sampled caption/image pairs, the
  record's \<open>images\<close> list has length \<open>k\<close> and holds the first image path of each pair in
  the order the pairs were given (the sampling order). The user message is the service's
  question with \<open>k\<close> copies of the image placeholder, all contiguous, either at the very
  start followed by a space, or at the very end after a space. When the service's question
  does not itself contain the placeholder, the message contains it at exactly \<open>k\<close>
  positions.
\<close>

theorem multi_image_record:
  assumes "fst (build_convo client pretrain_examples g) = Inr ex"
  shows "length (mi_images ex) = length pretrain_examples
       \<and> (\<forall>j<length pretrain_examples.
             pe_images (pretrain_examples ! j) \<noteq> []
             \<and> mi_images ex ! j = hd (pe_images (pretrain_examples ! j)))
       \<and> (\<exists>create prompt resp q.
             client = Inr create \<and> create prompt = Inr resp \<and> resp ''question'' = Some q
             \<and> (content (hd (mi_messages ex))
                   = str_times ''<image>'' (length pretrain_examples) @ '' '' @ q
                 \<or> content (hd (mi_messages ex))
                   = q @ '' '' @ str_times ''<image>'' (length pretrain_examples))
             \<and> (\<not> contains ''<image>'' q
                  \<longrightarrow> occurrences ''<image>'' (content (hd (mi_messages ex)))
                        = length pretrain_examples))"
proof -
  from build_convo_Inr [OF assms] obtain create captions prompt resp q a where
    c: "client = Inr create"
    and caps: "map_err (\<lambda>e. case list_item (pe_messages e) 1 of
                               Inl err \<Rightarrow> Inl err | Inr m \<Rightarrow> Inr (content m)) pretrain_examples
               = Inr captions"
    and paths: "map_err (\<lambda>e. list_item (pe_images e) 0) pretrain_examples = Inr (mi_images ex)"
    and resp: "create prompt = Inr resp" "resp ''question'' = Some q"
    and msgs: "mi_messages ex =
                 [\<lparr>role = ROLE_USER,
                   content = str_times ''<image>'' (length captions) @ '' '' @ q\<rparr>,
                  \<lparr>role = ROLE_ASSISTANT, content = a\<rparr>]
              \<or> mi_messages ex =
                 [\<lparr>role = ROLE_USER,
                   content = q @ '' '' @ str_times ''<image>'' (length captions)\<rparr>,
                  \<lparr>role = ROLE_ASSISTANT, content = a\<rparr>]"
    by blast
  have k: "length captions = length pretrain_examples"
    using caps by (rule map_err_length)
  have n: "length (mi_images ex) = length pretrain_examples"
    using paths by (rule map_err_length)
  have order: "\<forall>j<length pretrain_examples.
             pe_images (pretrain_examples ! j) \<noteq> []
             \<and> mi_images ex ! j = hd (pe_images (pretrain_examples ! j))"
  proof (intro allI impI)
    fix j assume "j < length pretrain_examples"
    from map_err_nth [OF paths this]
    show "pe_images (pretrain_examples ! j) \<noteq> []
             \<and> mi_images ex ! j = hd (pe_images (pretrain_examples ! j))"
      by (rule list_item_0)
  qed
  from msgs k
  have pos: "content (hd (mi_messages ex))
                   = str_times ''<image>'' (length pretrain_examples) @ '' '' @ q
                 \<or> content (hd (mi_messages ex))
                   = q @ '' '' @ str_times ''<image>'' (length pretrain_examples)"
    by auto
  have cnt: "occurrences ''<image>'' (content (hd (mi_messages ex))) = length pretrain_examples"
    if "\<not> contains ''<image>'' q"
    using pos occurrences_front [OF that] occurrences_back [OF that] by auto
  from c resp pos cnt n order show ?thesis by blast
qed

theorem multi_image_record_witness:
  "fst (build_convo example_client example_pretrain rng_zero)
     = Inr \<lparr>mi_images = [''boats.jpg'', ''pier.jpg''],
            mi_messages =
              [\<lparr>role = ROLE_USER, content = ''<image><image> What links the two images?''\<rparr>,
               \<lparr>role = ROLE_ASSISTANT, content = ''Both show a harbour.''\<rparr>]\<rparr>
   \<and> length example_pretrain = 2
   \<and> \<not> contains ''<image>'' ''What links the two images?''
   \<and> occurrences ''<image>'' ''<image><image> What links the two images?'' = 2"
  using multi_image_record [OF ex_build_convo] ex_build_convo
  by (simp add: example_pretrain_def)

section \<open>The \<open>--token\<close> option\<close>

text \<open>
  Claim C10. In the command line of both molecule scripts the value of \<open>--token\<close> is
  converted by \<open>bool\<close>: every non-empty string, \<open>False\<close> and \<open>0\<close> included, gives
  \<open>token = True\<close>; only the empty string gives \<open>False\<close>, and without the option the
  default is \<open>True\<close>. So \<open>--token False\<close> runs the pipeline exactly as token mode does.
\<close>

theorem token_option_parsing:
  "arg_token given = (given \<noteq> Some [])
   \<and> arg_token None
   \<and> arg_token (Some ''False'')
   \<and> arg_token (Some ''0'')
   \<and> \<not> arg_token (Some [])
   \<and> process_input canon encoder inp format (arg_token (Some ''False''))
       = process_input canon encoder inp format True
   \<and> gen_s2f canon encoder dataset format (arg_token (Some ''0'')) split g
       = gen_s2f canon encoder dataset format True split g"
  by (cases given) (simp_all add: arg_token_def py_bool_of_str_def)

theorem token_option_parsing_witness:
  "arg_token (Some ''false'')
   \<and> process_input example_canon example_encoder (Some ''CCO'') ''smiles''
         (arg_token (Some ''False''))
       = Inr (''[C][C][O]'', ''CCO'', MOLECULE_TOKEN)"
  using token_option_parsing
    [of "Some ''false''" example_canon example_encoder "Some ''CCO''" "''smiles''"]
  by (simp add: process_input_def example_canon_def example_encoder_def)

end
